theory Spec2Isabelle
  imports Main "HOL-Library.Word" "HOL-Library.AList"
begin

section \<open>Python values, exceptions and results\<close>

text \<open>
  The reader of Norpix SEQ files (\<^verbatim>\<open>libertem/io/dataset/seq.py\<close>) and the frame-summing job
  (\<^verbatim>\<open>libertem/job/sum.py\<close>) are embedded function by function. Python integers are
  \<^typ>\<open>int\<close>, byte strings are lists of 8-bit words, a \<^verbatim>\<open>str\<close> is its list of code points,
  and every \<^verbatim>\<open>raise\<close> is a left injection of the result type.
\<close>

type_synonym byte = "8 word"
type_synonym bytes = "byte list"

datatype error =
    OSError
  | StructError
  | UnicodeDecodeError
  | KeyError string
  | TypeError
  | ValueError
  | ZeroDivisionError
  | DataSetException string
  | MrcReaderError
  | AttributeError
  | RangeError
  | IndexError
  | AxisError

text \<open>
  A header value: the integer formats unpack to a Python int, an \<^verbatim>\<open>Ns\<close> format to a byte
  string that \<^verbatim>\<open>_decode_str\<close> turns into a \<^verbatim>\<open>str\<close>, and the \<^verbatim>\<open>d\<close> format to a float, kept
  here as the eight bytes of its IEEE encoding read as a little-endian integer.
\<close>

datatype pyval =
    PInt int
  | PBytes bytes
  | PStr "nat list"
  | PFloat int

definition bind :: "error + 'a \<Rightarrow> ('a \<Rightarrow> error + 'b) \<Rightarrow> error + 'b" where
  "bind m f = (case m of Inl e \<Rightarrow> Inl e | Inr x \<Rightarrow> f x)"

section \<open>The header layout\<close>

datatype fmt = DWORD | LONG | DOUBLE | USHORT | CharArray nat

definition HEADER_FIELDS :: "(string \<times> fmt) list" where
  "HEADER_FIELDS = [
    (''magic'', DWORD),
    (''name'', CharArray 24),
    (''version'', LONG),
    (''header_size'', LONG),
    (''description'', CharArray 512),
    (''width'', DWORD),
    (''height'', DWORD),
    (''bit_depth'', DWORD),
    (''bit_depth_real'', DWORD),
    (''image_size_bytes'', DWORD),
    (''image_format'', DWORD),
    (''allocated_frames'', DWORD),
    (''origin'', DWORD),
    (''true_image_size'', DWORD),
    (''suggested_frame_rate'', DOUBLE),
    (''description_format'', LONG),
    (''reference_frame'', DWORD),
    (''fixed_size'', DWORD),
    (''flags'', DWORD),
    (''bayer_pattern'', LONG),
    (''time_offset_us'', LONG),
    (''extended_header_size'', LONG),
    (''compression_format'', DWORD),
    (''reference_time_s'', LONG),
    (''reference_time_ms'', USHORT),
    (''reference_time_us'', USHORT)]"

text \<open>\<^verbatim>\<open>struct.Struct('<' + fs).size\<close>: little-endian standard sizes, no padding.\<close>

fun struct_size :: "fmt \<Rightarrow> nat" where
  "struct_size DWORD = 4"
| "struct_size LONG = 4"
| "struct_size DOUBLE = 8"
| "struct_size USHORT = 2"
| "struct_size (CharArray n) = n"

definition HEADER_SIZE :: nat where
  "HEADER_SIZE = sum_list (map (\<lambda>field. struct_size (snd field)) HEADER_FIELDS)"

fun le_uint :: "bytes \<Rightarrow> int" where
  "le_uint [] = 0"
| "le_uint (b # bs) = uint b + 256 * le_uint bs"

definition le_sint :: "bytes \<Rightarrow> int" where
  "le_sint bs = (let u = le_uint bs; n = 8 * length bs
                 in if 2 ^ (n - 1) \<le> u then u - 2 ^ n else u)"

text \<open>\<^verbatim>\<open>s.unpack(buf)[0]\<close> for a buffer of exactly \<^verbatim>\<open>s.size\<close> bytes.\<close>

fun struct_unpack :: "fmt \<Rightarrow> bytes \<Rightarrow> pyval" where
  "struct_unpack DWORD buf = PInt (le_uint buf)"
| "struct_unpack LONG buf = PInt (le_sint buf)"
| "struct_unpack DOUBLE buf = PFloat (le_uint buf)"
| "struct_unpack USHORT buf = PInt (le_uint buf)"
| "struct_unpack (CharArray n) buf = PBytes buf"

text \<open>
  \<^verbatim>\<open>_unpack_header_field\<close>: \<^verbatim>\<open>unpack\<close> raises \<^verbatim>\<open>struct.error\<close> unless the slice
  \<^verbatim>\<open>header_part[:s.size]\<close> has exactly \<^verbatim>\<open>s.size\<close> bytes. Every format of the table yields
  one value, so the function returns \<^verbatim>\<open>vals[0]\<close>.
\<close>

definition unpack_header_field :: "bytes \<Rightarrow> fmt \<Rightarrow> error + (pyval \<times> nat)" where
  "unpack_header_field header_part fs =
     (let size = struct_size fs; buf = take size header_part
      in if length buf \<noteq> size then Inl StructError
         else Inr (struct_unpack fs buf, size))"

section \<open>Text fields\<close>

text \<open>\<^verbatim>\<open>str_in.index(b'\x00\x00')\<close>: the first position where two zero bytes follow each other.\<close>

fun index_end_mark :: "bytes \<Rightarrow> nat option" where
  "index_end_mark (a # b # rest) =
     (if a = 0 \<and> b = 0 then Some 0 else map_option Suc (index_end_mark (b # rest)))"
| "index_end_mark _ = None"

text \<open>
  \<^verbatim>\<open>bytes.decode("utf16")\<close> with strict error handling on a little-endian machine: a leading
  byte order mark selects the byte order and is dropped, otherwise the native (little-endian)
  order is used; an odd number of bytes, a lone low surrogate and a high surrogate without its
  low surrogate raise \<^verbatim>\<open>UnicodeDecodeError\<close>.
\<close>

fun utf16_units :: "bool \<Rightarrow> bytes \<Rightarrow> nat list option" where
  "utf16_units be [] = Some []"
| "utf16_units be [a] = None"
| "utf16_units be (a # b # rest) =
     map_option
       ((#) (if be then 256 * unat a + unat b else unat a + 256 * unat b))
       (utf16_units be rest)"

fun utf16_points :: "nat list \<Rightarrow> nat list option" where
  "utf16_points [] = Some []"
| "utf16_points [u] = (if 55296 \<le> u \<and> u < 57344 then None else Some [u])"
| "utf16_points (u # v # rest) =
     (if 55296 \<le> u \<and> u < 56320 then
        (if 56320 \<le> v \<and> v < 57344
         then map_option ((#) (65536 + (u - 55296) * 1024 + (v - 56320))) (utf16_points rest)
         else None)
      else if 56320 \<le> u \<and> u < 57344 then None
      else map_option ((#) u) (utf16_points (v # rest)))"

definition utf16_decode :: "bytes \<Rightarrow> error + nat list" where
  "utf16_decode bs =
     (let (be, body) =
        (case bs of
           a # b # rest \<Rightarrow>
             if a = 255 \<and> b = 254 then (False, rest)
             else if a = 254 \<and> b = 255 then (True, rest)
             else (False, bs)
         | _ \<Rightarrow> (False, bs))
      in case utf16_units be body of
           None \<Rightarrow> Inl UnicodeDecodeError
         | Some us \<Rightarrow>
             (case utf16_points us of
                None \<Rightarrow> Inl UnicodeDecodeError
              | Some cs \<Rightarrow> Inr cs))"

definition decode_str :: "bytes \<Rightarrow> error + nat list" where
  "decode_str str_in =
     (let end_pos = (case index_end_mark str_in of
                       Some i \<Rightarrow> i + 1
                     | None \<Rightarrow> length str_in)
      in utf16_decode (take end_pos str_in))"

section \<open>Unpacking and reading the header\<close>

text \<open>
  The header is a Python dict, which keeps insertion order: an association list, where
  \<^verbatim>\<open>tmp[name] = val\<close> replaces the value of a key already present and appends a new key.
\<close>

type_synonym header = "(string \<times> pyval) list"

definition str_fields :: "string set" where
  "str_fields = {''name'', ''description''}"

text \<open>\<^verbatim>\<open>_decode_str(val)\<close> on an unpacked value: \<^verbatim>\<open>len\<close> of a number raises \<^verbatim>\<open>TypeError\<close>.\<close>

fun decode_val :: "pyval \<Rightarrow> error + pyval" where
  "decode_val (PBytes bs) = bind (decode_str bs) (\<lambda>s. Inr (PStr s))"
| "decode_val _ = Inl TypeError"

fun unpack_header_loop :: "bytes \<Rightarrow> (string \<times> fmt) list \<Rightarrow> nat \<Rightarrow> header \<Rightarrow> error + header" where
  "unpack_header_loop header_bytes [] pos tmp = Inr tmp"
| "unpack_header_loop header_bytes ((name, fs) # fields) pos tmp =
     bind (unpack_header_field (drop pos header_bytes) fs) (\<lambda>(val, size).
     bind (if name \<in> str_fields then decode_val val else Inr val) (\<lambda>val'.
     unpack_header_loop header_bytes fields (pos + size) (AList.update name val' tmp)))"

definition unpack_header :: "bytes \<Rightarrow> (string \<times> fmt) list \<Rightarrow> error + header" where
  "unpack_header header_bytes fields = unpack_header_loop header_bytes fields 0 []"

text \<open>
  The file system: a path names the bytes of a file, or nothing. \<^verbatim>\<open>open\<close> and \<^verbatim>\<open>os.stat\<close>
  raise \<^verbatim>\<open>OSError\<close> on a path that names nothing; \<^verbatim>\<open>fh.read(HEADER_SIZE)\<close> returns at most
  \<^verbatim>\<open>HEADER_SIZE\<close> bytes.
\<close>

type_synonym filesystem = "string \<Rightarrow> bytes option"

definition read_header :: "filesystem \<Rightarrow> string \<Rightarrow> (string \<times> fmt) list \<Rightarrow> error + header" where
  "read_header fs path fields =
     (case fs path of
        None \<Rightarrow> Inl OSError
      | Some content \<Rightarrow> unpack_header (take HEADER_SIZE content) fields)"

definition os_stat_st_size :: "filesystem \<Rightarrow> string \<Rightarrow> error + int" where
  "os_stat_st_size fs path =
     (case fs path of None \<Rightarrow> Inl OSError | Some content \<Rightarrow> Inr (int (length content)))"

definition os_path_exists :: "filesystem \<Rightarrow> string \<Rightarrow> bool" where
  "os_path_exists fs path = (fs path \<noteq> None)"

text \<open>
  \<^verbatim>\<open>header[key]\<close> where the code goes on to compute with the value as a number: a missing key
  raises \<^verbatim>\<open>KeyError\<close>. The keys read this way are unpacked with integer formats by
  \<^const>\<open>HEADER_FIELDS\<close>; a value that is not an int is reported as \<^verbatim>\<open>TypeError\<close>.
\<close>

definition header_int :: "header \<Rightarrow> string \<Rightarrow> error + int" where
  "header_int header key =
     (case map_of header key of
        None \<Rightarrow> Inl (KeyError key)
      | Some (PInt v) \<Rightarrow> Inr v
      | Some _ \<Rightarrow> Inl TypeError)"

definition get_image_offset :: "header \<Rightarrow> error + int" where
  "get_image_offset header =
     bind (header_int header ''version'') (\<lambda>version.
       if version \<ge> 5 then Inr 8192 else Inr 1024)"

text \<open>
  \<^verbatim>\<open>header[key]\<close> where the value is only compared with \<^verbatim>\<open>!=\<close>, which never raises.
\<close>

definition header_get :: "header \<Rightarrow> string \<Rightarrow> error + pyval" where
  "header_get header key =
     (case map_of header key of None \<Rightarrow> Inl (KeyError key) | Some v \<Rightarrow> Inr v)"

section \<open>Numbers, dtypes and arrays\<close>

text \<open>
  \<^verbatim>\<open>int(a / b)\<close> on Python ints: \<^verbatim>\<open>/\<close> raises \<^verbatim>\<open>ZeroDivisionError\<close> for \<^verbatim>\<open>b == 0\<close>, otherwise
  it is the correctly rounded float quotient, and \<^verbatim>\<open>int\<close> truncates it towards zero. The
  quotient is taken exactly here, which is what the float gives while \<open>\<bar>a\<bar> + \<bar>b\<bar> < 2 ^ 53\<close>.
\<close>

definition py_int_truediv :: "int \<Rightarrow> int \<Rightarrow> error + int" where
  "py_int_truediv a b =
     (if b = 0 then Inl ZeroDivisionError
      else Inr (sgn a * sgn b * (\<bar>a\<bar> div \<bar>b\<bar>)))"

text \<open>\<^verbatim>\<open>str(n)\<close> and \<^verbatim>\<open>'%i' % n\<close> for an int: its decimal digits.\<close>

definition digit_char :: "nat \<Rightarrow> char" where
  "digit_char d = char_of (48 + d)"

function str_nat :: "nat \<Rightarrow> string" where
  "str_nat n = (if n < 10 then [digit_char n] else str_nat (n div 10) @ [digit_char (n mod 10)])"
  by pat_completeness auto
termination
  by (relation "measure (\<lambda>n. n)") auto

definition str_int :: "int \<Rightarrow> string" where
  "str_int i = (if i < 0 then CHR ''-'' # str_nat (nat (- i)) else str_nat (nat i))"

text \<open>A numpy dtype: its kind and its width in bits.\<close>

datatype np_dtype = BoolT | UIntT nat | IntT nat | FloatT nat | ComplexT nat

fun kind :: "np_dtype \<Rightarrow> char" where
  "kind BoolT = CHR ''b''"
| "kind (UIntT n) = CHR ''u''"
| "kind (IntT n) = CHR ''i''"
| "kind (FloatT n) = CHR ''f''"
| "kind (ComplexT n) = CHR ''c''"

fun itemsize :: "np_dtype \<Rightarrow> int" where
  "itemsize BoolT = 1"
| "itemsize (UIntT n) = int (n div 8)"
| "itemsize (IntT n) = int (n div 8)"
| "itemsize (FloatT n) = int (n div 8)"
| "itemsize (ComplexT n) = int (n div 8)"

text \<open>
  \<^verbatim>\<open>np.dtype('uint%i' % bit_depth)\<close>: numpy knows the names \<^verbatim>\<open>uint8\<close>, \<^verbatim>\<open>uint16\<close>, \<^verbatim>\<open>uint32\<close>
  and \<^verbatim>\<open>uint64\<close>, and raises \<^verbatim>\<open>TypeError\<close> for a name it does not know.
\<close>

definition np_dtype_uint :: "int \<Rightarrow> error + np_dtype" where
  "np_dtype_uint bit_depth =
     (if bit_depth \<in> {8, 16, 32, 64} then Inr (UIntT (nat bit_depth)) else Inl TypeError)"

text \<open>
  \<^verbatim>\<open>np.prod(scan_size)\<close>: numpy multiplies the tuple as an array of 64-bit integers, so the
  product wraps around; the result is read as a signed number. The navigation shape is
  therefore kept as the 64-bit values numpy sees.
\<close>

definition np_prod :: "64 word list \<Rightarrow> int" where
  "np_prod xs = sint (prod_list xs)"

text \<open>
  An array: its dtype, its shape and its elements in row-major order. The element type is
  left open: no claim here depends on the value of a floating-point number.
\<close>

record 'v ndarray =
  dtype :: np_dtype
  shape :: "nat list"
  items :: "'v list"

definition np_squeeze :: "'v ndarray \<Rightarrow> 'v ndarray" where
  "np_squeeze a = a\<lparr>shape := filter (\<lambda>d. d \<noteq> 1) (shape a)\<rparr>"

section \<open>The dataset\<close>

text \<open>
  Modelled from the spec: the classes \<^verbatim>\<open>Shape\<close>, \<^verbatim>\<open>DataSetMeta\<close> and \<^verbatim>\<open>CorrectionSet\<close> are
  imported by \<^verbatim>\<open>seq.py\<close> from modules that are not part of the sources. Each is the record of
  its constructor's arguments: a shape is the tuple of dimensions with the number of signal
  dimensions, the navigation dimensions first.
\<close>

record Shape =
  dims :: "int list"
  sig_dims :: nat

definition nav :: "Shape \<Rightarrow> int list" where
  "nav s = take (length (dims s) - sig_dims s) (dims s)"

definition sig :: "Shape \<Rightarrow> int list" where
  "sig s = drop (length (dims s) - sig_dims s) (dims s)"

record DataSetMeta =
  meta_shape :: Shape
  raw_dtype :: np_dtype
  meta_dtype :: np_dtype
  metadata :: header

record 'v CorrectionSet =
  dark :: "'v ndarray option"
  gain :: "'v ndarray option"

text \<open>
  The attributes of a \<^verbatim>\<open>SEQDataSet\<close> object; \<open>None\<close> is Python's \<^verbatim>\<open>None\<close>. \<^verbatim>\<open>_cores\<close> is
  set by the executor before partitions are made.
\<close>

record 'v SEQDataSet =
  ds_path :: string
  ds_scan_size :: "64 word list"
  ds_header :: "header option"
  ds_meta :: "DataSetMeta option"
  ds_footer_size :: "int option"
  ds_filesize :: "int option"
  ds_image_count :: "int option"
  ds_dark :: "'v ndarray option"
  ds_gain :: "'v ndarray option"
  ds_image_offset :: "int option"
  ds_timestamp_micro :: "bool option"
  ds_cores :: int

text \<open>\<^verbatim>\<open>SEQDataSet.__init__\<close>.\<close>

definition SEQDataSet_init :: "string \<Rightarrow> 64 word list \<Rightarrow> int \<Rightarrow> 'v SEQDataSet" where
  "SEQDataSet_init path scan_size cores =
     \<lparr>ds_path = path, ds_scan_size = scan_size, ds_header = None, ds_meta = None,
      ds_footer_size = None, ds_filesize = None, ds_image_count = None,
      ds_dark = None, ds_gain = None, ds_image_offset = None,
      ds_timestamp_micro = None, ds_cores = cores\<rparr>"

text \<open>
  \<^verbatim>\<open>mrcReader\<close> belongs to another package; it is a parameter here, a function of the file's
  bytes that yields the array under \<^verbatim>\<open>'data'\<close>, or nothing where it raises.
\<close>

definition maybe_load_mrc ::
  "filesystem \<Rightarrow> (bytes \<Rightarrow> 'v ndarray option) \<Rightarrow> string \<Rightarrow> error + 'v ndarray option" where
  "maybe_load_mrc fs mrcReader path =
     (if \<not> os_path_exists fs path then Inr None
      else case fs path of
             None \<Rightarrow> Inl OSError
           | Some content \<Rightarrow>
               (case mrcReader content of
                  None \<Rightarrow> Inl MrcReaderError
                | Some arr \<Rightarrow> Inr (Some (np_squeeze arr))))"

definition maybe_load_dark_gain ::
  "filesystem \<Rightarrow> (bytes \<Rightarrow> 'v ndarray option) \<Rightarrow> 'v SEQDataSet \<Rightarrow> error + 'v SEQDataSet" where
  "maybe_load_dark_gain fs mrcReader self =
     bind (maybe_load_mrc fs mrcReader (ds_path self @ ''.dark.mrc'')) (\<lambda>d.
     bind (maybe_load_mrc fs mrcReader (ds_path self @ ''.gain.mrc'')) (\<lambda>g.
     Inr (self\<lparr>ds_dark := d, ds_gain := g\<rparr>)))"

definition get_correction_data :: "'v SEQDataSet \<Rightarrow> 'v CorrectionSet" where
  "get_correction_data self = \<lparr>dark = ds_dark self, gain = ds_gain self\<rparr>"

text \<open>
  \<^verbatim>\<open>_do_initialize\<close> assigns the attributes one by one and returns the object. An exception
  leaves the call with the error alone: what the object holds by then is not returned.
\<close>

definition do_initialize ::
  "filesystem \<Rightarrow> (bytes \<Rightarrow> 'v ndarray option) \<Rightarrow> 'v SEQDataSet \<Rightarrow> error + 'v SEQDataSet" where
  "do_initialize fs mrcReader self =
     bind (read_header fs (ds_path self) HEADER_FIELDS) (\<lambda>header.
     bind (get_image_offset header) (\<lambda>image_offset.
     bind (header_int header ''version'') (\<lambda>version.
     bind (header_int header ''bit_depth'') (\<lambda>bit_depth.
     bind (case np_dtype_uint bit_depth of
             Inl TypeError \<Rightarrow>
               Inl (DataSetException (''unsupported bit depth: '' @ str_int bit_depth))
           | r \<Rightarrow> r) (\<lambda>dtype.
     bind (header_int header ''width'') (\<lambda>width.
     bind (header_int header ''height'') (\<lambda>height.
     let frame_size_bytes = width * height * itemsize dtype in
     bind (header_int header ''true_image_size'') (\<lambda>true_image_size.
     let footer_size = true_image_size - frame_size_bytes in
     bind (os_stat_st_size fs (ds_path self)) (\<lambda>filesize.
     bind (py_int_truediv (filesize - image_offset) true_image_size) (\<lambda>image_count.
     if image_count \<noteq> np_prod (ds_scan_size self)
     then Inl (DataSetException ''scan_size doesn't match number of frames'')
     else
       let shape = \<lparr>dims = map sint (ds_scan_size self) @ [height, width], sig_dims = 2\<rparr>;
           meta = \<lparr>meta_shape = shape, raw_dtype = dtype, meta_dtype = dtype,
                   metadata = header\<rparr>
       in maybe_load_dark_gain fs mrcReader
            (self\<lparr>ds_header := Some header,
                  ds_image_offset := Some image_offset,
                  ds_timestamp_micro := Some (version \<ge> 5),
                  ds_footer_size := Some footer_size,
                  ds_filesize := Some filesize,
                  ds_image_count := Some image_count,
                  ds_meta := Some meta\<rparr>)))))))))))"

text \<open>
  \<^verbatim>\<open>detect_params\<close> returns \<^verbatim>\<open>False\<close> or the dict
  \<^verbatim>\<open>{"parameters": {"path": path, "scan_size": str(image_count)}}\<close>.
\<close>

datatype detected = DetectFalse | DetectParameters string string

definition detect_params_try :: "filesystem \<Rightarrow> string \<Rightarrow> error + detected" where
  "detect_params_try fs path =
     bind (read_header fs path HEADER_FIELDS) (\<lambda>header.
     bind (header_get header ''magic'') (\<lambda>magic.
     if magic \<noteq> PInt 65261 then Inr DetectFalse
     else
     bind (get_image_offset header) (\<lambda>image_offset.
     bind (os_stat_st_size fs path) (\<lambda>filesize.
     bind (header_int header ''true_image_size'') (\<lambda>true_image_size.
     bind (py_int_truediv (filesize - image_offset) true_image_size) (\<lambda>image_count.
     Inr (DetectParameters path (str_int image_count))))))))"

text \<open>The \<^verbatim>\<open>except (OSError, UnicodeDecodeError)\<close> clause: any other exception leaves the call.\<close>

definition detect_params :: "filesystem \<Rightarrow> string \<Rightarrow> error + detected" where
  "detect_params fs path =
     (case detect_params_try fs path of
        Inl OSError \<Rightarrow> Inr DetectFalse
      | Inl UnicodeDecodeError \<Rightarrow> Inr DetectFalse
      | r \<Rightarrow> r)"

text \<open>\<^verbatim>\<open>check_valid\<close>; subscripting \<^verbatim>\<open>None\<close> before initialization raises \<^verbatim>\<open>TypeError\<close>.\<close>

definition check_valid :: "'v SEQDataSet \<Rightarrow> error + unit" where
  "check_valid self =
     (case ds_header self of
        None \<Rightarrow> Inl TypeError
      | Some header \<Rightarrow>
          bind (header_get header ''magic'') (\<lambda>magic.
          if magic \<noteq> PInt 65261
          then Inl (DataSetException ''The format of this .seq file is unrecognized'')
          else
          bind (header_get header ''compression_format'') (\<lambda>compression_format.
          if compression_format \<noteq> PInt 0
          then Inl (DataSetException ''Only uncompressed images are supported in .seq files'')
          else
          bind (header_get header ''image_format'') (\<lambda>image_format.
          if image_format \<noteq> PInt 100
          then Inl (DataSetException ''Non-monochrome images are not supported'')
          else Inr ()))))"

section \<open>Partitions\<close>

text \<open>
  Modelled from the spec: \<^verbatim>\<open>LocalFile\<close>, \<^verbatim>\<open>FileSet\<close>, \<^verbatim>\<open>Slice\<close> and \<^verbatim>\<open>BasePartition\<close> are
  classes of \<^verbatim>\<open>libertem.io.dataset.base\<close> and \<^verbatim>\<open>libertem.common\<close>, which are not part of the
  sources. Each is the record of the arguments that \<^verbatim>\<open>seq.py\<close> constructs it from (a
  file descriptor with its half-open range of frame indices; a partition with its first
  frame and its number of frames); a slice is an origin and a shape.
\<close>

record LocalFile =
  lf_path :: string
  start_idx :: int
  end_idx :: int
  native_dtype :: np_dtype
  sig_shape :: "int list"
  frame_footer :: int
  frame_header :: int
  file_header :: int

record FileSet =
  files :: "LocalFile list"
  frame_footer_bytes :: int

record Slice =
  origin :: "int list"
  slice_shape :: Shape

record BasePartition =
  part_meta :: DataSetMeta
  part_fileset :: FileSet
  partition_slice :: Slice
  start_frame :: int
  num_frames :: int









section \<open>Summing frames\<close>

text \<open>
  The arithmetic of numpy on the elements of an array is a parameter of the model: the zero
  of a dtype, the conversion of an element from one dtype to another, the addition of two
  elements in a dtype and the sum of a list of elements in a dtype (numpy chooses the order
  of the additions). What the model fixes is which of them is applied where, and the dtype
  and shape of every array.
\<close>

record 'v np_ops =
  np_zero :: "np_dtype \<Rightarrow> 'v"
  np_cast :: "np_dtype \<Rightarrow> np_dtype \<Rightarrow> 'v \<Rightarrow> 'v"
  np_add :: "np_dtype \<Rightarrow> 'v \<Rightarrow> 'v \<Rightarrow> 'v"
  np_reduce :: "np_dtype \<Rightarrow> 'v list \<Rightarrow> 'v"

text \<open>
  numpy's casting rule \<^verbatim>\<open>same_kind\<close> on the numeric dtypes orders the kinds as bool, unsigned,
  signed, float, complex and allows a cast that does not go down in this order.
  \<^verbatim>\<open>np.result_type\<close> is numpy's promotion of two array dtypes.
\<close>

fun kind_order :: "np_dtype \<Rightarrow> nat" where
  "kind_order BoolT = 0"
| "kind_order (UIntT n) = 1"
| "kind_order (IntT n) = 2"
| "kind_order (FloatT n) = 3"
| "kind_order (ComplexT n) = 4"

definition can_cast_same_kind :: "np_dtype \<Rightarrow> np_dtype \<Rightarrow> bool" where
  "can_cast_same_kind from to = (kind_order from \<le> kind_order to)"

definition float_for :: "nat \<Rightarrow> nat" where
  "float_for n = (if n \<le> 8 then 16 else if n \<le> 16 then 32 else 64)"

fun result_type :: "np_dtype \<Rightarrow> np_dtype \<Rightarrow> np_dtype" where
  "result_type BoolT b = b"
| "result_type a BoolT = a"
| "result_type (UIntT m) (UIntT n) = UIntT (max m n)"
| "result_type (IntT m) (IntT n) = IntT (max m n)"
| "result_type (UIntT m) (IntT n) =
     (if m < n then IntT n else if 2 * m \<le> 64 then IntT (2 * m) else FloatT 64)"
| "result_type (IntT n) (UIntT m) =
     (if m < n then IntT n else if 2 * m \<le> 64 then IntT (2 * m) else FloatT 64)"
| "result_type (FloatT m) (FloatT n) = FloatT (max m n)"
| "result_type (FloatT m) (UIntT n) = FloatT (max m (float_for n))"
| "result_type (FloatT m) (IntT n) = FloatT (max m (float_for n))"
| "result_type (UIntT n) (FloatT m) = FloatT (max m (float_for n))"
| "result_type (IntT n) (FloatT m) = FloatT (max m (float_for n))"
| "result_type (ComplexT m) (ComplexT n) = ComplexT (max m n)"
| "result_type (ComplexT m) (FloatT n) = ComplexT (max m (2 * n))"
| "result_type (FloatT n) (ComplexT m) = ComplexT (max m (2 * n))"
| "result_type (ComplexT m) (UIntT n) = ComplexT (max m (2 * float_for n))"
| "result_type (ComplexT m) (IntT n) = ComplexT (max m (2 * float_for n))"
| "result_type (UIntT n) (ComplexT m) = ComplexT (max m (2 * float_for n))"
| "result_type (IntT n) (ComplexT m) = ComplexT (max m (2 * float_for n))"

text \<open>The dtype of \<^verbatim>\<open>a.sum(...)\<close>: bool and the integers add up in 64 bits.\<close>

fun sum_dtype :: "np_dtype \<Rightarrow> np_dtype" where
  "sum_dtype BoolT = IntT 64"
| "sum_dtype (UIntT n) = UIntT 64"
| "sum_dtype (IntT n) = IntT 64"
| "sum_dtype (FloatT n) = FloatT n"
| "sum_dtype (ComplexT n) = ComplexT n"

text \<open>\<^verbatim>\<open>np.zeros(shape, dtype=...)\<close>; a negative dimension raises \<^verbatim>\<open>ValueError\<close>.\<close>

definition np_zeros :: "'v np_ops \<Rightarrow> int list \<Rightarrow> np_dtype \<Rightarrow> error + 'v ndarray" where
  "np_zeros ops shp dt =
     (if list_ex (\<lambda>d. d < 0) shp then Inl ValueError
      else Inr \<lparr>dtype = dt, shape = map nat shp,
                items = replicate (prod_list (map nat shp)) (np_zero ops dt)\<rparr>)"

definition astype :: "'v np_ops \<Rightarrow> 'v ndarray \<Rightarrow> np_dtype \<Rightarrow> 'v ndarray" where
  "astype ops a dt = a\<lparr>dtype := dt, items := map (np_cast ops (dtype a) dt) (items a)\<rparr>"

text \<open>
  \<^verbatim>\<open>a.sum(axis=tuple(range(k)))\<close>: the sum over the first \<open>k\<close> axes. Element \<open>j\<close> of the
  result adds up the elements \<open>i * inner + j\<close> of the array.
\<close>

definition np_sum :: "'v np_ops \<Rightarrow> 'v ndarray \<Rightarrow> nat \<Rightarrow> error + 'v ndarray" where
  "np_sum ops a k =
     (if length (shape a) < k then Inl AxisError
      else
        let dt = sum_dtype (dtype a);
            outer = prod_list (take k (shape a));
            inner = prod_list (drop k (shape a))
        in Inr \<lparr>dtype = dt, shape = drop k (shape a),
                 items = map (\<lambda>j. np_reduce ops dt
                            (map (\<lambda>i. np_cast ops (dtype a) dt (items a ! (i * inner + j)))
                               [0..<outer]))
                         [0..<inner]\<rparr>)"

text \<open>Positions in row-major order: from a flat position to an index and back.\<close>

fun unravel :: "nat list \<Rightarrow> nat \<Rightarrow> nat list" where
  "unravel [] p = []"
| "unravel (d # ds) p = (p div prod_list ds) mod d # unravel ds (p mod prod_list ds)"

fun ravel :: "nat list \<Rightarrow> nat list \<Rightarrow> nat" where
  "ravel (d # ds) (i # is) = i * prod_list ds + ravel ds is"
| "ravel _ _ = 0"

text \<open>\<^verbatim>\<open>slice(start, stop).indices(len)\<close>: the bounds of a Python slice on an axis.\<close>

definition slice_indices :: "int \<Rightarrow> int \<Rightarrow> nat \<Rightarrow> nat \<times> nat" where
  "slice_indices start stop len =
     (let clip = (\<lambda>x. if x < 0 then max 0 (x + int len) else min x (int len));
          lo = nat (clip start); hi = nat (clip stop)
      in (lo, max lo hi))"

text \<open>
  \<^verbatim>\<open>target[slices] += operand\<close>: more slices than axes raise \<^verbatim>\<open>IndexError\<close>; numpy adds in
  \<^verbatim>\<open>result_type\<close> of the two dtypes and casts the sum to the dtype of the target under the
  rule \<^verbatim>\<open>same_kind\<close>, raising a \<^verbatim>\<open>TypeError\<close> where the rule forbids it; the operand must
  broadcast to the shape of the region, or a \<^verbatim>\<open>ValueError\<close> is raised. The target keeps its
  dtype and shape.
\<close>

definition broadcastable :: "nat list \<Rightarrow> nat list \<Rightarrow> bool" where
  "broadcastable src dst =
     (length src \<le> length dst \<and>
      list_all2 (\<lambda>s d. s = d \<or> s = 1) src (drop (length dst - length src) dst))"

definition broadcast_index :: "nat list \<Rightarrow> nat list \<Rightarrow> nat list" where
  "broadcast_index src idx =
     map2 (\<lambda>s i. if s = 1 then 0 else i) src (drop (length idx - length src) idx)"

definition slice_bounds :: "nat list \<Rightarrow> (int \<times> int) list \<Rightarrow> (nat \<times> nat) list" where
  "slice_bounds shp slices =
     map2 (\<lambda>(start, stop) d. slice_indices start stop d) slices shp
     @ map (\<lambda>d. (0, d)) (drop (length slices) shp)"

definition iadd_region ::
  "'v np_ops \<Rightarrow> 'v ndarray \<Rightarrow> (int \<times> int) list \<Rightarrow> 'v ndarray \<Rightarrow> error + 'v ndarray" where
  "iadd_region ops target slices operand =
     (if length (shape target) < length slices then Inl IndexError
      else
        let bounds = slice_bounds (shape target) slices;
            region = map (\<lambda>(lo, hi). hi - lo) bounds;
            common = result_type (dtype target) (dtype operand)
        in if \<not> can_cast_same_kind common (dtype target)
           then Inl TypeError
           else if \<not> broadcastable (shape operand) region then Inl ValueError
           else Inr (target\<lparr>items :=
             map (\<lambda>p.
                 let idx = unravel (shape target) p
                 in if list_all2 (\<lambda>i (lo, hi). lo \<le> i \<and> i < hi) idx bounds
                    then np_cast ops common (dtype target)
                           (np_add ops common
                              (np_cast ops (dtype target) common (items target ! p))
                              (np_cast ops (dtype operand) common
                                 (items operand !
                                    ravel (shape operand)
                                      (broadcast_index (shape operand)
                                         (map2 (\<lambda>i (lo, hi). i - lo) idx bounds)))))
                    else items target ! p)
               [0..<length (items target)]\<rparr>))"

text \<open>
  Modelled from the spec: \<^verbatim>\<open>DataTile\<close> and \<^verbatim>\<open>Slice.get\<close> are not part of the sources. A
  tile is an array with the slice it stands for; \<^verbatim>\<open>get(sig_only=True)\<close> is the region of the
  signal dimensions that the slice addresses, \<^verbatim>\<open>slice(origin, origin + shape)\<close> on each.
  The tiles of a partition (\<^verbatim>\<open>partition.get_tiles()\<close>) are an argument of the task.
\<close>

record 'v DataTile =
  tile_data :: "'v ndarray"
  tile_slice :: Slice

definition get_sig_only :: "Slice \<Rightarrow> (int \<times> int) list" where
  "get_sig_only sl =
     map2 (\<lambda>org s. (org, org + s))
       (drop (length (origin sl) - sig_dims (slice_shape sl)) (origin sl))
       (sig (slice_shape sl))"

record 'v SumResultTile =
  data :: "'v ndarray"

text \<open>The body of the loop of \<^verbatim>\<open>SumFramesTask.__call__\<close>, the loop, and the call.\<close>

definition sum_tile :: "'v np_ops \<Rightarrow> 'v ndarray \<Rightarrow> 'v DataTile \<Rightarrow> error + 'v ndarray" where
  "sum_tile ops part data_tile =
     (let data0 = tile_data data_tile;
          data1 = (if kind (dtype data0) \<in> {CHR ''u'', CHR ''i''}
                   then astype ops data0 (FloatT 32) else data0)
      in bind (np_sum ops data1 (length (nav (slice_shape (tile_slice data_tile)))))
           (\<lambda>result. iadd_region ops part (get_sig_only (tile_slice data_tile)) result))"

fun sum_tiles :: "'v np_ops \<Rightarrow> 'v ndarray \<Rightarrow> 'v DataTile list \<Rightarrow> error + 'v ndarray" where
  "sum_tiles ops part [] = Inr part"
| "sum_tiles ops part (data_tile # tiles) =
     bind (sum_tile ops part data_tile) (\<lambda>part'. sum_tiles ops part' tiles)"

definition SumFramesTask_call ::
  "'v np_ops \<Rightarrow> BasePartition \<Rightarrow> 'v DataTile list \<Rightarrow> error + 'v SumResultTile list" where
  "SumFramesTask_call ops part_n tiles =
     bind (np_zeros ops (sig (meta_shape (part_meta part_n))) (FloatT 32)) (\<lambda>part.
     bind (sum_tiles ops part tiles) (\<lambda>part'.
     Inr [\<lparr>data = part'\<rparr>]))"



section \<open>A well-formed file, for the examples\<close>

text \<open>
  The bytes of a header as the camera software lays them out: every field of
  \<^const>\<open>HEADER_FIELDS\<close> in order, little-endian, the name \<^verbatim>\<open>"N"\<close> and the description
  \<^verbatim>\<open>"A"\<close> in UTF-16 with zero padding, and zero in the fields that the reader does not use.
\<close>

fun le_bytes :: "nat \<Rightarrow> int \<Rightarrow> bytes" where
  "le_bytes 0 v = []"
| "le_bytes (Suc n) v = word_of_int v # le_bytes n (v div 256)"

definition name_bytes :: bytes where
  "name_bytes = 78 # 0 # 0 # replicate 21 0"

definition description_bytes :: bytes where
  "description_bytes = 65 # 0 # 0 # replicate 509 0"

definition pack_header :: "int \<Rightarrow> int \<Rightarrow> int \<Rightarrow> int \<Rightarrow> int \<Rightarrow> int \<Rightarrow> int \<Rightarrow> int \<Rightarrow> bytes" where
  "pack_header magic version width height bit_depth image_format true_image_size
      compression_format =
     le_bytes 4 magic @ name_bytes @ le_bytes 4 version @ le_bytes 4 1024
     @ description_bytes
     @ le_bytes 4 width @ le_bytes 4 height @ le_bytes 4 bit_depth @ le_bytes 4 bit_depth
     @ le_bytes 4 0 @ le_bytes 4 image_format @ le_bytes 4 0 @ le_bytes 4 0
     @ le_bytes 4 true_image_size @ le_bytes 8 0 @ le_bytes 4 0
     @ le_bytes 4 0 @ le_bytes 4 0 @ le_bytes 4 0
     @ le_bytes 4 0 @ le_bytes 4 0 @ le_bytes 4 0
     @ le_bytes 4 compression_format @ le_bytes 4 0 @ le_bytes 2 0 @ le_bytes 2 0"

text \<open>The header that \<^const>\<open>unpack_header\<close> makes of these bytes.\<close>

definition packed_header :: "int \<Rightarrow> int \<Rightarrow> int \<Rightarrow> int \<Rightarrow> int \<Rightarrow> int \<Rightarrow> int \<Rightarrow> int \<Rightarrow> header" where
  "packed_header magic version width height bit_depth image_format true_image_size
      compression_format =
    [(''magic'', PInt magic), (''name'', PStr [78]), (''version'', PInt version),
     (''header_size'', PInt 1024), (''description'', PStr [65]), (''width'', PInt width),
     (''height'', PInt height), (''bit_depth'', PInt bit_depth),
     (''bit_depth_real'', PInt bit_depth),
     (''image_size_bytes'', PInt 0), (''image_format'', PInt image_format),
     (''allocated_frames'', PInt 0), (''origin'', PInt 0),
     (''true_image_size'', PInt true_image_size),
     (''suggested_frame_rate'', PFloat 0), (''description_format'', PInt 0),
     (''reference_frame'', PInt 0), (''fixed_size'', PInt 0), (''flags'', PInt 0),
     (''bayer_pattern'', PInt 0), (''time_offset_us'', PInt 0),
     (''extended_header_size'', PInt 0), (''compression_format'', PInt compression_format),
     (''reference_time_s'', PInt 0), (''reference_time_ms'', PInt 0),
     (''reference_time_us'', PInt 0)]"

text \<open>An \<^verbatim>\<open>mrcReader\<close> that raises on every file.\<close>

definition mrcReader_none :: "bytes \<Rightarrow> unit ndarray option" where
  "mrcReader_none content = None"

text \<open>Exact integer arithmetic in place of numpy's, for the examples.\<close>

definition exact_ops :: "int np_ops" where
  "exact_ops = \<lparr>np_zero = (\<lambda>dt. 0), np_cast = (\<lambda>from to x. x),
                 np_add = (\<lambda>dt x y. x + y), np_reduce = (\<lambda>dt xs. sum_list xs)\<rparr>"

text \<open>
  The dataset of the specification's scenario as \<^verbatim>\<open>_do_initialize\<close> returns it, a partition
  with frames of \<open>2 \<times> 2\<close> pixels, and a tile of one such frame.
\<close>

definition scenario_dataset :: "int \<Rightarrow> unit SEQDataSet" where
  "scenario_dataset cores =
     \<lparr>ds_path = ''a.seq'', ds_scan_size = [2, 5],
      ds_header = Some (packed_header 65261 5 4 4 8 100 16 0),
      ds_meta = Some \<lparr>meta_shape = \<lparr>dims = [2, 5, 4, 4], sig_dims = 2\<rparr>,
        raw_dtype = UIntT 8, meta_dtype = UIntT 8,
        metadata = packed_header 65261 5 4 4 8 100 16 0\<rparr>,
      ds_footer_size = Some 0, ds_filesize = Some 8352, ds_image_count = Some 10,
      ds_dark = None, ds_gain = None, ds_image_offset = Some 8192,
      ds_timestamp_micro = Some True, ds_cores = cores\<rparr>"

definition example_partition :: BasePartition where
  "example_partition =
     \<lparr>part_meta = \<lparr>meta_shape = \<lparr>dims = [2, 2, 2], sig_dims = 2\<rparr>, raw_dtype = UIntT 8,
        meta_dtype = UIntT 8, metadata = []\<rparr>,
      part_fileset = \<lparr>files = [], frame_footer_bytes = 0\<rparr>,
      partition_slice = \<lparr>origin = [0, 0, 0],
        slice_shape = \<lparr>dims = [2, 2, 2], sig_dims = 2\<rparr>\<rparr>,
      start_frame = 0, num_frames = 2\<rparr>"

definition example_tile :: "np_dtype \<Rightarrow> int DataTile" where
  "example_tile dt =
     \<lparr>tile_data = \<lparr>dtype = dt, shape = [1, 2, 2], items = [1, 2, 3, 4]\<rparr>,
      tile_slice = \<lparr>origin = [0, 0, 0], slice_shape = \<lparr>dims = [1, 2, 2], sig_dims = 2\<rparr>\<rparr>\<rparr>"

section \<open>Basic facts\<close>

lemma HEADER_SIZE_value: "HEADER_SIZE = 632"
  by (simp add: HEADER_SIZE_def HEADER_FIELDS_def)

lemma bind_Inr_iff: "(bind m f = Inr y) = (\<exists>x. m = Inr x \<and> f x = Inr y)"
  by (cases m) (simp_all add: bind_def)

lemma bind_Inl_iff: "(bind m f = Inl e) = (m = Inl e \<or> (\<exists>x. m = Inr x \<and> f x = Inl e))"
  by (cases m) (simp_all add: bind_def)

lemma bind_Inr [simp]: "bind (Inr x) f = f x"
  by (simp add: bind_def)

lemma bind_Inl [simp]: "bind (Inl e) f = Inl e"
  by (simp add: bind_def)

lemma length_le_bytes [simp]: "length (le_bytes n v) = n"
  by (induction n arbitrary: v) auto

lemma length_name_bytes [simp]: "length name_bytes = 24"
  by (simp add: name_bytes_def)

lemma length_description_bytes [simp]: "length description_bytes = 512"
  by (simp add: description_bytes_def)

lemma length_pack_header [simp]: "length (pack_header m v w h b f t c) = 632"
  by (simp add: pack_header_def)

lemma le_uint_le_bytes_mod: "le_uint (le_bytes n v) = v mod 256 ^ n"
proof (induction n arbitrary: v)
  case 0
  show ?case by simp
next
  case (Suc n)
  have "le_uint (le_bytes (Suc n) v) = v mod 256 + 256 * ((v div 256) mod 256 ^ n)"
    by (simp add: Suc uint_word_of_int_eq take_bit_eq_mod)
  also have "\<dots> = v mod (256 * 256 ^ n)"
    using zmod_zmult2_eq [of "256 ^ n" v 256] by (simp add: algebra_simps)
  finally show ?case by simp
qed

lemma le_uint_le_bytes: "0 \<le> v \<Longrightarrow> v < 256 ^ n \<Longrightarrow> le_uint (le_bytes n v) = v"
  by (simp add: le_uint_le_bytes_mod)

lemma le_sint_le_bytes: "0 \<le> v \<Longrightarrow> v < 2 ^ 31 \<Longrightarrow> le_sint (le_bytes 4 v) = v"
  using le_uint_le_bytes [of v 4] by (simp add: le_sint_def Let_def del: le_bytes.simps)

text \<open>The loop reads the header from position \<open>pos\<close> on: it only ever looks at the rest.\<close>

lemma unpack_header_loop_drop:
  "unpack_header_loop hb fds pos tmp = unpack_header_loop (drop pos hb) fds 0 tmp"
proof (induction fds arbitrary: pos tmp hb)
  case Nil
  show ?case by simp
next
  case (Cons f fds)
  obtain name fs where f: "f = (name, fs)" by (cases f)
  show ?case
    unfolding f unpack_header_loop.simps
    apply (simp only: drop_0 add_0)
    apply (rule arg_cong [where f = "bind _"])
    apply (rule ext)
    apply (simp only: split_paired_all prod.case)
    apply (rule arg_cong [where f = "bind _"])
    apply (rule ext)
    apply (subst Cons.IH)
    apply (subst (2) Cons.IH)
    apply (simp add: add.commute)
    done
qed

lemma unpack_header_field_append:
  "length buf = struct_size fs \<Longrightarrow>
   unpack_header_field (buf @ rest) fs = Inr (struct_unpack fs buf, struct_size fs)"
  by (simp add: unpack_header_field_def Let_def)

lemma unpack_header_loop_step:
  "length buf = struct_size fs \<Longrightarrow>
   unpack_header_loop (buf @ rest) ((name, fs) # fds) 0 tmp =
     bind (if name \<in> str_fields then decode_val (struct_unpack fs buf)
           else Inr (struct_unpack fs buf))
       (\<lambda>val'. unpack_header_loop rest fds 0 (AList.update name val' tmp))"
proof -
  assume len: "length buf = struct_size fs"
  have d: "drop (struct_size fs) (buf @ rest) = rest"
    using len by simp
  have step: "unpack_header_loop (buf @ rest) fds (struct_size fs) t' =
        unpack_header_loop rest fds 0 t'" for t'
    by (subst unpack_header_loop_drop) (simp only: d)
  show ?thesis
    by (simp add: unpack_header_field_append [OF len] bind_def step split: sum.splits)
qed

lemma decode_str_one_char:
  "c \<noteq> 0 \<Longrightarrow> decode_str (c # 0 # 0 # rest) = Inr [unat c]"
proof -
  assume c: "c \<noteq> 0"
  have "unat c < 256" using unsigned_less [of c] by simp
  then show ?thesis
    using c by (simp add: decode_str_def utf16_decode_def)
qed

lemma decode_name_bytes: "decode_str name_bytes = Inr [78]"
  unfolding name_bytes_def using decode_str_one_char [of 78 "replicate 21 0"] by simp

lemma decode_description_bytes: "decode_str description_bytes = Inr [65]"
  unfolding description_bytes_def using decode_str_one_char [of 65 "replicate 509 0"] by simp

text \<open>Unpacking the packed header gives its fields back, whatever follows the header.\<close>

lemma unpack_pack_header:
  assumes "0 \<le> m" "m < 4294967296" "0 \<le> v" "v < 2147483648"
    and "0 \<le> w" "w < 4294967296" "0 \<le> h" "h < 4294967296"
    and "0 \<le> b" "b < 4294967296" "0 \<le> f" "f < 4294967296"
    and "0 \<le> t" "t < 4294967296" "0 \<le> c" "c < 4294967296"
  shows "unpack_header (pack_header m v w h b f t c @ rest) HEADER_FIELDS =
    Inr (packed_header m v w h b f t c)"
  using assms
  by (simp add: unpack_header_def pack_header_def packed_header_def HEADER_FIELDS_def
      unpack_header_loop_step
      str_fields_def le_uint_le_bytes le_sint_le_bytes decode_name_bytes
      decode_description_bytes
      del: unpack_header_loop.simps(2))

lemma read_pack_header:
  assumes "fs path = Some (pack_header m v w h b f t c @ rest)"
    and "0 \<le> m" "m < 4294967296" "0 \<le> v" "v < 2147483648"
    and "0 \<le> w" "w < 4294967296" "0 \<le> h" "h < 4294967296"
    and "0 \<le> b" "b < 4294967296" "0 \<le> f" "f < 4294967296"
    and "0 \<le> t" "t < 4294967296" "0 \<le> c" "c < 4294967296"
  shows "read_header fs path HEADER_FIELDS = Inr (packed_header m v w h b f t c)"
  using unpack_pack_header [OF assms(2-), of "[]"] assms(1)
  by (simp add: read_header_def HEADER_SIZE_value)

section \<open>Text fields: helper facts\<close>



lemma utf16_decode_error: "utf16_decode bs = Inl e \<Longrightarrow> e = UnicodeDecodeError"
  by (auto simp: utf16_decode_def Let_def split: prod.splits option.splits)

lemma decode_str_error: "decode_str bs = Inl e \<Longrightarrow> e = UnicodeDecodeError"
  unfolding decode_str_def Let_def by (rule utf16_decode_error)

lemma unpack_header_loop_keeps:
  "unpack_header_loop hb fds pos tmp = Inr h \<Longrightarrow> k \<notin> fst ` set fds \<Longrightarrow>
   map_of h k = map_of tmp k"
proof (induction fds arbitrary: pos tmp)
  case Nil
  then show ?case by simp
next
  case (Cons f fds)
  obtain name fs where f: "f = (name, fs)" by (cases f)
  from Cons.prems(1) obtain sz val' where
    rest: "unpack_header_loop hb fds (pos + sz) (AList.update name val' tmp) = Inr h"
    unfolding f unpack_header_loop.simps by (auto simp: bind_Inr_iff)
  from Cons.prems(2) f have "k \<noteq> name" "k \<notin> fst ` set fds" by auto
  with Cons.IH [OF rest] show ?case
    by (simp add: update_conv')
qed

lemma unpack_header_loop_at:
  "pos + struct_size fs \<le> length hb \<Longrightarrow>
   unpack_header_loop hb ((name, fs) # fds) pos tmp =
     bind (if name \<in> str_fields
           then decode_val (struct_unpack fs (take (struct_size fs) (drop pos hb)))
           else Inr (struct_unpack fs (take (struct_size fs) (drop pos hb))))
       (\<lambda>val'. unpack_header_loop hb fds (pos + struct_size fs) (AList.update name val' tmp))"
  by (simp add: unpack_header_field_def Let_def)


lemma unpack_header_undecodable:
  assumes "548 \<le> length hb"
    and "decode_str (take 24 (drop 4 hb)) = Inl e \<or> decode_str (take 512 (drop 36 hb)) = Inl e"
  shows "unpack_header hb HEADER_FIELDS = Inl UnicodeDecodeError"
proof -
  define R where "R = drop 5 HEADER_FIELDS"
  have hf: "HEADER_FIELDS = (''magic'', DWORD) # (''name'', CharArray 24) # (''version'', LONG)
      # (''header_size'', LONG) # (''description'', CharArray 512) # R"
    by (simp add: R_def HEADER_FIELDS_def)
  show ?thesis
  proof (cases "decode_str (take 24 (drop 4 hb))")
    case (Inl e')
    then have "e' = UnicodeDecodeError" by (rule decode_str_error)
    with Inl assms(1) show ?thesis
      unfolding unpack_header_def hf
      by (simp add: unpack_header_loop_at str_fields_def del: unpack_header_loop.simps)
  next
    case (Inr s)
    with assms(2) have "decode_str (take 512 (drop 36 hb)) = Inl e" by simp
    moreover from this have "e = UnicodeDecodeError" by (rule decode_str_error)
    ultimately show ?thesis
      using Inr assms(1)
      unfolding unpack_header_def hf
      by (simp add: unpack_header_loop_at str_fields_def del: unpack_header_loop.simps)
  qed
qed

section \<open>Initialization: helper facts\<close>

lemma maybe_load_dark_gain_Inr:
  "maybe_load_dark_gain fs mrcReader self = Inr self' \<Longrightarrow>
   \<exists>d g. maybe_load_mrc fs mrcReader (ds_path self @ ''.dark.mrc'') = Inr d \<and>
         maybe_load_mrc fs mrcReader (ds_path self @ ''.gain.mrc'') = Inr g \<and>
         self' = self\<lparr>ds_dark := d, ds_gain := g\<rparr>"
  by (auto simp: maybe_load_dark_gain_def bind_Inr_iff)

lemma np_dtype_uint_catch:
  "(case np_dtype_uint b of Inl TypeError \<Rightarrow> Inl (DataSetException msg) | r \<Rightarrow> r) =
   (if b \<in> {8, 16, 32, 64} then Inr (UIntT (nat b)) else Inl (DataSetException msg))"
  by (simp add: np_dtype_uint_def)

lemma get_image_offset_eq:
  "header_int header ''version'' = Inr version \<Longrightarrow>
   get_image_offset header = Inr (if version \<ge> 5 then 8192 else 1024)"
  by (simp add: get_image_offset_def)

lemma do_initialize_eq:
  assumes "read_header fs (ds_path self) HEADER_FIELDS = Inr header"
    and "header_int header ''version'' = Inr version"
    and "header_int header ''bit_depth'' = Inr bit_depth"
    and "header_int header ''width'' = Inr width"
    and "header_int header ''height'' = Inr height"
    and "header_int header ''true_image_size'' = Inr t"
    and "os_stat_st_size fs (ds_path self) = Inr filesize"
  shows "do_initialize fs mrcReader self =
    (if bit_depth \<notin> {8, 16, 32, 64}
     then Inl (DataSetException (''unsupported bit depth: '' @ str_int bit_depth))
     else bind (py_int_truediv (filesize - (if version \<ge> 5 then 8192 else 1024)) t)
       (\<lambda>image_count.
         if image_count \<noteq> np_prod (ds_scan_size self)
         then Inl (DataSetException ''scan_size doesn't match number of frames'')
         else maybe_load_dark_gain fs mrcReader
            (self\<lparr>ds_header := Some header,
                  ds_image_offset := Some (if version \<ge> 5 then 8192 else 1024),
                  ds_timestamp_micro := Some (version \<ge> 5),
                  ds_footer_size :=
                    Some (t - width * height * itemsize (UIntT (nat bit_depth))),
                  ds_filesize := Some filesize,
                  ds_image_count := Some image_count,
                  ds_meta := Some \<lparr>meta_shape =
                      \<lparr>dims = map sint (ds_scan_size self) @ [height, width], sig_dims = 2\<rparr>,
                    raw_dtype = UIntT (nat bit_depth), meta_dtype = UIntT (nat bit_depth),
                    metadata = header\<rparr>\<rparr>)))"
  unfolding do_initialize_def
  by (simp only: assms get_image_offset_eq [OF assms(2)] bind_Inr np_dtype_uint_catch Let_def
      if_distrib [of "\<lambda>m. bind m _"] bind_Inl if_not_P split: if_split)
     (simp add: Let_def)

lemma read_header_stat:
  "read_header fs path fds = Inr header \<Longrightarrow> \<exists>content. fs path = Some content \<and>
     os_stat_st_size fs path = Inr (int (length content))"
  by (auto simp: read_header_def os_stat_st_size_def split: option.splits)

lemma le_uint_range: "0 \<le> le_uint bs \<and> le_uint bs < 256 ^ length bs"
proof (induction bs)
  case Nil
  show ?case by simp
next
  case (Cons b bs)
  have "uint b < 256" using uint_bounded [of b] by simp
  moreover have "0 \<le> uint b" by simp
  ultimately show ?case using Cons by simp
qed

lemma unpack_header_loop_field:
  assumes "unpack_header_loop hb fds pos tmp = Inr h"
    and "distinct (map fst fds)" and "(k, f) \<in> set fds" and "k \<notin> str_fields"
  shows "\<exists>buf. length buf = struct_size f \<and> map_of h k = Some (struct_unpack f buf)"
  using assms
proof (induction fds arbitrary: pos tmp)
  case Nil
  then show ?case by simp
next
  case (Cons x fds)
  obtain name fs where x: "x = (name, fs)" by (cases x)
  from Cons.prems(1) obtain val sz val' where
    field: "unpack_header_field (drop pos hb) fs = Inr (val, sz)"
    and val': "(if name \<in> str_fields then decode_val val else Inr val) = Inr val'"
    and rest: "unpack_header_loop hb fds (pos + sz) (AList.update name val' tmp) = Inr h"
    unfolding x unpack_header_loop.simps by (auto simp: bind_Inr_iff)
  show ?case
  proof (cases "k = name")
    case True
    with Cons.prems(2,3) x have f: "f = fs" and notin: "k \<notin> fst ` set fds"
      by (auto simp: rev_image_eqI)
    from True Cons.prems(4) val' have "val' = val" by simp
    moreover from field have "val = struct_unpack fs (take (struct_size fs) (drop pos hb))"
      "length (take (struct_size fs) (drop pos hb)) = struct_size fs"
      by (auto simp: unpack_header_field_def Let_def split: if_splits)
    ultimately show ?thesis
      using unpack_header_loop_keeps [OF rest notin] True f
      by (auto simp: update_conv' simp del: length_take)
  next
    case False
    with Cons.prems(2,3) x have "distinct (map fst fds)" "(k, f) \<in> set fds" by auto
    from Cons.IH [OF rest this Cons.prems(4)] show ?thesis .
  qed
qed

lemma distinct_HEADER_FIELDS: "distinct (map fst HEADER_FIELDS)"
  by (simp add: HEADER_FIELDS_def)

lemma unpack_header_DWORD:
  assumes "unpack_header hb HEADER_FIELDS = Inr h" and "(k, DWORD) \<in> set HEADER_FIELDS"
  shows "\<exists>v. map_of h k = Some (PInt v) \<and> header_int h k = Inr v \<and> 0 \<le> v \<and> v < 4294967296"
proof -
  from assms(2) have "k \<notin> str_fields"
    by (auto simp: HEADER_FIELDS_def str_fields_def)
  from unpack_header_loop_field [OF assms(1) [unfolded unpack_header_def]
      distinct_HEADER_FIELDS assms(2) this]
  obtain buf where "length buf = 4" "map_of h k = Some (PInt (le_uint buf))" by auto
  with le_uint_range [of buf] show ?thesis
    by (simp add: header_int_def)
qed

lemma unpack_header_LONG:
  assumes "unpack_header hb HEADER_FIELDS = Inr h" and "(k, LONG) \<in> set HEADER_FIELDS"
  shows "\<exists>v. map_of h k = Some (PInt v) \<and> header_int h k = Inr v"
proof -
  from assms(2) have "k \<notin> str_fields"
    by (auto simp: HEADER_FIELDS_def str_fields_def)
  from unpack_header_loop_field [OF assms(1) [unfolded unpack_header_def]
      distinct_HEADER_FIELDS assms(2) this]
  show ?thesis by (auto simp: header_int_def)
qed

lemma read_header_fields:
  assumes "read_header fs path HEADER_FIELDS = Inr header"
  shows "\<exists>version bit_depth width height t.
     header_int header ''version'' = Inr version \<and>
     header_int header ''bit_depth'' = Inr bit_depth \<and>
     header_int header ''width'' = Inr width \<and> 0 \<le> width \<and>
     header_int header ''height'' = Inr height \<and> 0 \<le> height \<and>
     header_int header ''true_image_size'' = Inr t \<and> 0 \<le> t \<and> t < 4294967296"
proof -
  from assms obtain content where u: "unpack_header (take HEADER_SIZE content) HEADER_FIELDS = Inr header"
    by (auto simp: read_header_def split: option.splits)
  have "(''version'', LONG) \<in> set HEADER_FIELDS" "(''bit_depth'', DWORD) \<in> set HEADER_FIELDS"
    "(''width'', DWORD) \<in> set HEADER_FIELDS" "(''height'', DWORD) \<in> set HEADER_FIELDS"
    "(''true_image_size'', DWORD) \<in> set HEADER_FIELDS"
    by (simp_all add: HEADER_FIELDS_def)
  from unpack_header_LONG [OF u this(1)] unpack_header_DWORD [OF u this(2)]
    unpack_header_DWORD [OF u this(3)] unpack_header_DWORD [OF u this(4)]
    unpack_header_DWORD [OF u this(5)]
  show ?thesis by blast
qed

lemma py_int_truediv_floor:
  assumes "0 \<le> a" "0 < b"
  shows "py_int_truediv a b = Inr (a div b)"
proof (cases "a = 0")
  case True
  with assms show ?thesis by (simp add: py_int_truediv_def)
next
  case False
  with assms have "0 < a" by simp
  with assms show ?thesis by (simp add: py_int_truediv_def)
qed

lemma do_initialize_Inr:
  assumes "do_initialize fs mrcReader self = Inr self'"
  shows "\<exists>header version bit_depth width height t filesize d g.
     read_header fs (ds_path self) HEADER_FIELDS = Inr header \<and>
     header_int header ''version'' = Inr version \<and>
     header_int header ''bit_depth'' = Inr bit_depth \<and> bit_depth \<in> {8, 16, 32, 64} \<and>
     header_int header ''width'' = Inr width \<and>
     header_int header ''height'' = Inr height \<and>
     header_int header ''true_image_size'' = Inr t \<and> 0 < t \<and>
     os_stat_st_size fs (ds_path self) = Inr filesize \<and>
     py_int_truediv (filesize - (if version \<ge> 5 then 8192 else 1024)) t =
       Inr (np_prod (ds_scan_size self)) \<and>
     maybe_load_mrc fs mrcReader (ds_path self @ ''.dark.mrc'') = Inr d \<and>
     maybe_load_mrc fs mrcReader (ds_path self @ ''.gain.mrc'') = Inr g \<and>
     self' = self\<lparr>ds_header := Some header,
                  ds_image_offset := Some (if version \<ge> 5 then 8192 else 1024),
                  ds_timestamp_micro := Some (version \<ge> 5),
                  ds_footer_size :=
                    Some (t - width * height * itemsize (UIntT (nat bit_depth))),
                  ds_filesize := Some filesize,
                  ds_image_count := Some (np_prod (ds_scan_size self)),
                  ds_meta := Some \<lparr>meta_shape =
                      \<lparr>dims = map sint (ds_scan_size self) @ [height, width], sig_dims = 2\<rparr>,
                    raw_dtype = UIntT (nat bit_depth), meta_dtype = UIntT (nat bit_depth),
                    metadata = header\<rparr>,
                  ds_dark := d, ds_gain := g\<rparr>"
proof -
  from assms obtain header where rh: "read_header fs (ds_path self) HEADER_FIELDS = Inr header"
    unfolding do_initialize_def
    by (cases "read_header fs (ds_path self) HEADER_FIELDS") simp_all
  from read_header_fields [OF rh] obtain version bit_depth width height t where
    f: "header_int header ''version'' = Inr version"
      "header_int header ''bit_depth'' = Inr bit_depth"
      "header_int header ''width'' = Inr width"
      "header_int header ''height'' = Inr height"
      "header_int header ''true_image_size'' = Inr t" and t0: "0 \<le> t"
    by blast
  from read_header_stat [OF rh] obtain filesize where
    st: "os_stat_st_size fs (ds_path self) = Inr filesize" by blast
  note eq = do_initialize_eq [OF rh f st, of mrcReader]
  from assms eq have b: "bit_depth \<in> {8, 16, 32, 64}"
    by (auto split: if_splits)
  from assms eq b obtain n where
    n: "py_int_truediv (filesize - (if version \<ge> 5 then 8192 else 1024)) t = Inr n"
    by (cases "py_int_truediv (filesize - (if version \<ge> 5 then 8192 else 1024)) t") auto
  then have "t \<noteq> 0" by (auto simp: py_int_truediv_def split: if_splits)
  with t0 have tpos: "0 < t" by simp
  from assms eq b n have nn: "n = np_prod (ds_scan_size self)"
    by (auto split: if_splits)
  from assms eq b n nn have "maybe_load_dark_gain fs mrcReader
            (self\<lparr>ds_header := Some header,
                  ds_image_offset := Some (if version \<ge> 5 then 8192 else 1024),
                  ds_timestamp_micro := Some (version \<ge> 5),
                  ds_footer_size :=
                    Some (t - width * height * itemsize (UIntT (nat bit_depth))),
                  ds_filesize := Some filesize,
                  ds_image_count := Some n,
                  ds_meta := Some \<lparr>meta_shape =
                      \<lparr>dims = map sint (ds_scan_size self) @ [height, width], sig_dims = 2\<rparr>,
                    raw_dtype = UIntT (nat bit_depth), meta_dtype = UIntT (nat bit_depth),
                    metadata = header\<rparr>\<rparr>) = Inr self'"
    by (simp split: if_splits)
  from maybe_load_dark_gain_Inr [OF this] obtain d g where
    "maybe_load_mrc fs mrcReader (ds_path self @ ''.dark.mrc'') = Inr d"
    "maybe_load_mrc fs mrcReader (ds_path self @ ''.gain.mrc'') = Inr g"
    "self' = self\<lparr>ds_header := Some header,
                  ds_image_offset := Some (if version \<ge> 5 then 8192 else 1024),
                  ds_timestamp_micro := Some (version \<ge> 5),
                  ds_footer_size :=
                    Some (t - width * height * itemsize (UIntT (nat bit_depth))),
                  ds_filesize := Some filesize,
                  ds_image_count := Some n,
                  ds_meta := Some \<lparr>meta_shape =
                      \<lparr>dims = map sint (ds_scan_size self) @ [height, width], sig_dims = 2\<rparr>,
                    raw_dtype = UIntT (nat bit_depth), meta_dtype = UIntT (nat bit_depth),
                    metadata = header\<rparr>, ds_dark := d, ds_gain := g\<rparr>"
    by auto
  with rh f b tpos st n nn show ?thesis by blast
qed

section \<open>Initialization on the example files\<close>

lemma header_int_packed:
  "header_int (packed_header m v w h b f t c) ''version'' = Inr v"
  "header_int (packed_header m v w h b f t c) ''bit_depth'' = Inr b"
  "header_int (packed_header m v w h b f t c) ''width'' = Inr w"
  "header_int (packed_header m v w h b f t c) ''height'' = Inr h"
  "header_int (packed_header m v w h b f t c) ''true_image_size'' = Inr t"
  by (simp_all add: header_int_def packed_header_def)

lemma header_get_packed:
  "header_get (packed_header m v w h b f t c) ''magic'' = Inr (PInt m)"
  "header_get (packed_header m v w h b f t c) ''compression_format'' = Inr (PInt c)"
  "header_get (packed_header m v w h b f t c) ''image_format'' = Inr (PInt f)"
  by (simp_all add: header_get_def packed_header_def)

text \<open>Initialization on a file that holds a packed header and nothing beside it.\<close>

lemma do_initialize_packed:
  assumes "0 \<le> m" "m < 4294967296" "0 \<le> v" "v < 2147483648"
    and "0 \<le> w" "w < 4294967296" "0 \<le> h" "h < 4294967296"
    and "0 \<le> b" "b < 4294967296" "0 \<le> f" "f < 4294967296"
    and "0 \<le> t" "t < 4294967296" "0 \<le> c" "c < 4294967296"
  shows "do_initialize [path \<mapsto> pack_header m v w h b f t c @ rest] mrcReader
       (SEQDataSet_init path scan_size cores) =
    (if b \<notin> {8, 16, 32, 64}
     then Inl (DataSetException (''unsupported bit depth: '' @ str_int b))
     else bind (py_int_truediv (632 + int (length rest) - (if v \<ge> 5 then 8192 else 1024)) t)
       (\<lambda>image_count.
         if image_count \<noteq> np_prod scan_size
         then Inl (DataSetException ''scan_size doesn't match number of frames'')
         else Inr \<lparr>ds_path = path, ds_scan_size = scan_size,
                  ds_header = Some (packed_header m v w h b f t c),
                  ds_meta = Some \<lparr>meta_shape =
                      \<lparr>dims = map sint scan_size @ [h, w], sig_dims = 2\<rparr>,
                    raw_dtype = UIntT (nat b), meta_dtype = UIntT (nat b),
                    metadata = packed_header m v w h b f t c\<rparr>,
                  ds_footer_size = Some (t - w * h * itemsize (UIntT (nat b))),
                  ds_filesize = Some (632 + int (length rest)),
                  ds_image_count = Some image_count,
                  ds_dark = None, ds_gain = None,
                  ds_image_offset = Some (if v \<ge> 5 then 8192 else 1024),
                  ds_timestamp_micro = Some (v \<ge> 5), ds_cores = cores\<rparr>))"
proof -
  let ?fs = "[path \<mapsto> pack_header m v w h b f t c @ rest]"
  let ?self = "SEQDataSet_init path scan_size cores :: 'a SEQDataSet"
  have p: "ds_path ?self = path" by (simp add: SEQDataSet_init_def)
  have rh: "read_header ?fs (ds_path ?self) HEADER_FIELDS = Inr (packed_header m v w h b f t c)"
    unfolding p by (rule read_pack_header [OF _ assms]) simp
  have st: "os_stat_st_size ?fs (ds_path ?self) = Inr (632 + int (length rest))"
    by (simp add: p os_stat_st_size_def)
  show ?thesis
    unfolding do_initialize_eq [OF rh header_int_packed st]
    by (simp add: maybe_load_dark_gain_def maybe_load_mrc_def os_path_exists_def SEQDataSet_init_def
        bind_def split: sum.splits)
qed

section \<open>The navigation shape\<close>

lemma np_prod_no_overflow:
  assumes "- (2 ^ 63) \<le> prod_list (map sint xs)" "prod_list (map sint xs) < 2 ^ 63"
  shows "np_prod xs = prod_list (map sint xs)"
proof -
  have "sint (prod_list xs) = signed_take_bit 63 (prod_list (map sint xs))" for xs :: "64 word list"
  proof (induction xs)
    case Nil
    show ?case by simp
  next
    case (Cons x xs)
    have "sint (x * prod_list xs) = signed_take_bit 63 (sint x * sint (prod_list xs))"
      by (simp add: sint_word_ariths)
    also have "\<dots> = signed_take_bit 63 (sint x * prod_list (map sint xs))"
    proof -
      have "signed_take_bit 63 (sint x) = sint x"
        using sint_ge [of x] sint_lt [of x] by (simp add: signed_take_bit_int_eq_self)
      with signed_take_bit_mult [of 63 "sint x" "prod_list (map sint xs)"]
      show ?thesis unfolding Cons by simp
    qed
    finally show ?case by simp
  qed
  moreover have "signed_take_bit 63 (prod_list (map sint xs)) = prod_list (map sint xs)"
    using assms by (simp add: signed_take_bit_int_eq_self)
  ultimately show ?thesis by (simp add: np_prod_def)
qed

text \<open>
  Claim C3, amended. Let the header decode, the bit depth be supported and the frame count
  \<open>image_count\<close> be derived from the file size, and let the product of \<open>scan_size\<close> fit a
  signed 64-bit integer. Then initialization raises the error
  \<^verbatim>\<open>scan_size doesn't match number of frames\<close> exactly when \<open>image_count\<close> differs from that
  product; and when the two are equal and loading the sibling files does not fail,
  initialization succeeds and the shape is \<open>scan_size\<close> followed by \<open>(height, width)\<close>, with
  two signal dimensions.
\<close>

theorem scan_size_check:
  assumes "read_header fs (ds_path self) HEADER_FIELDS = Inr header"
    and "header_int header ''version'' = Inr version"
    and "header_int header ''bit_depth'' = Inr bit_depth"
    and "bit_depth \<in> {8, 16, 32, 64}"
    and "header_int header ''width'' = Inr width"
    and "header_int header ''height'' = Inr height"
    and "header_int header ''true_image_size'' = Inr t"
    and "os_stat_st_size fs (ds_path self) = Inr filesize"
    and "py_int_truediv (filesize - (if version \<ge> 5 then 8192 else 1024)) t = Inr image_count"
    and "- (2 ^ 63) \<le> prod_list (map sint (ds_scan_size self))"
    and "prod_list (map sint (ds_scan_size self)) < 2 ^ 63"
  shows "((do_initialize fs mrcReader self =
            Inl (DataSetException ''scan_size doesn't match number of frames''))
          = (image_count \<noteq> prod_list (map sint (ds_scan_size self)))) \<and>
    (image_count = prod_list (map sint (ds_scan_size self)) \<and>
     maybe_load_mrc fs mrcReader (ds_path self @ ''.dark.mrc'') \<noteq> Inl MrcReaderError \<and>
     maybe_load_mrc fs mrcReader (ds_path self @ ''.gain.mrc'') \<noteq> Inl MrcReaderError \<longrightarrow>
     (\<exists>self'. do_initialize fs mrcReader self = Inr self' \<and>
        map_option meta_shape (ds_meta self') =
          Some \<lparr>dims = map sint (ds_scan_size self) @ [height, width], sig_dims = 2\<rparr>))"
proof (intro conjI impI)
  note eq = do_initialize_eq [OF assms(1,2,3,5,6,7,8), of mrcReader]
  note p = np_prod_no_overflow [OF assms(10,11)]
  have aux: "maybe_load_mrc fs mrcReader p = Inl e \<Longrightarrow> e = MrcReaderError" for p e
    by (auto simp: maybe_load_mrc_def os_path_exists_def split: option.splits)
  show "(do_initialize fs mrcReader self =
            Inl (DataSetException ''scan_size doesn't match number of frames''))
          = (image_count \<noteq> prod_list (map sint (ds_scan_size self)))"
    unfolding eq p using assms(4,9)
    by (auto simp: maybe_load_dark_gain_def bind_Inl_iff dest: aux)
  assume ok: "image_count = prod_list (map sint (ds_scan_size self)) \<and>
     maybe_load_mrc fs mrcReader (ds_path self @ ''.dark.mrc'') \<noteq> Inl MrcReaderError \<and>
     maybe_load_mrc fs mrcReader (ds_path self @ ''.gain.mrc'') \<noteq> Inl MrcReaderError"
  then obtain d g where
    "maybe_load_mrc fs mrcReader (ds_path self @ ''.dark.mrc'') = Inr d"
    "maybe_load_mrc fs mrcReader (ds_path self @ ''.gain.mrc'') = Inr g"
    by (auto simp: maybe_load_mrc_def os_path_exists_def split: option.splits)
  with ok show "\<exists>self'. do_initialize fs mrcReader self = Inr self' \<and>
        map_option meta_shape (ds_meta self') =
          Some \<lparr>dims = map sint (ds_scan_size self) @ [height, width], sig_dims = 2\<rparr>"
    unfolding eq p using assms(4,9)
    by (simp add: maybe_load_dark_gain_def)
qed

lemma init_scenario:
  "do_initialize [''a.seq'' \<mapsto> pack_header 65261 5 4 4 8 100 16 0 @ replicate 7720 0]
      mrcReader_none (SEQDataSet_init ''a.seq'' [2, 5] 1) =
   Inr \<lparr>ds_path = ''a.seq'', ds_scan_size = [2, 5],
        ds_header = Some (packed_header 65261 5 4 4 8 100 16 0),
        ds_meta = Some \<lparr>meta_shape = \<lparr>dims = [2, 5, 4, 4], sig_dims = 2\<rparr>,
          raw_dtype = UIntT 8, meta_dtype = UIntT 8,
          metadata = packed_header 65261 5 4 4 8 100 16 0\<rparr>,
        ds_footer_size = Some 0, ds_filesize = Some 8352, ds_image_count = Some 10,
        ds_dark = None, ds_gain = None, ds_image_offset = Some 8192,
        ds_timestamp_micro = Some True, ds_cores = 1\<rparr>"
  by (simp add: do_initialize_packed py_int_truediv_def np_prod_def)

lemma read_scenario:
  "read_header [''a.seq'' \<mapsto> pack_header 65261 5 4 4 8 100 16 0 @ replicate 7720 0]
     (ds_path (SEQDataSet_init ''a.seq'' scan_size 1 :: unit SEQDataSet)) HEADER_FIELDS =
   Inr (packed_header 65261 5 4 4 8 100 16 0)"
  by (simp add: SEQDataSet_init_def read_pack_header)

lemma stat_scenario:
  "os_stat_st_size [''a.seq'' \<mapsto> pack_header 65261 5 4 4 8 100 16 0 @ replicate 7720 0]
     (ds_path (SEQDataSet_init ''a.seq'' scan_size 1 :: unit SEQDataSet)) = Inr 8352"
  by (simp add: SEQDataSet_init_def os_stat_st_size_def)

lemma count_scenario:
  "py_int_truediv (8352 - (if (5::int) \<ge> 5 then 8192 else 1024)) 16 = Inr 10"
  by (simp add: py_int_truediv_def)

text \<open>
  The two scenarios of the specification: ten frames of \<open>4 \<times> 4\<close> bytes after a version 5
  header, with \<open>scan_size = (3, 3)\<close> and with \<open>scan_size = (2, 5)\<close>.
\<close>

theorem scan_size_check_witness:
  "do_initialize [''a.seq'' \<mapsto> pack_header 65261 5 4 4 8 100 16 0 @ replicate 7720 0]
      mrcReader_none (SEQDataSet_init ''a.seq'' [3, 3] 1) =
     Inl (DataSetException ''scan_size doesn't match number of frames'') \<and>
   prod_list (map sint [3, 3 :: 64 word]) = 9 \<and>
   prod_list (map sint [2, 5 :: 64 word]) = 10 \<and>
   map_sum id (\<lambda>s. map_option meta_shape (ds_meta s))
     (do_initialize [''a.seq'' \<mapsto> pack_header 65261 5 4 4 8 100 16 0 @ replicate 7720 0]
        mrcReader_none (SEQDataSet_init ''a.seq'' [2, 5] 1)) =
     Inr (Some \<lparr>dims = [2, 5, 4, 4], sig_dims = 2\<rparr>)"
proof -
  have b: "(8::int) \<in> {8, 16, 32, 64}" by simp
  have r: "- (2 ^ 63) \<le> prod_list (map sint
        (ds_scan_size (SEQDataSet_init ''a.seq'' [3, 3] 1 :: unit SEQDataSet)))"
    "prod_list (map sint
        (ds_scan_size (SEQDataSet_init ''a.seq'' [3, 3] 1 :: unit SEQDataSet))) < 2 ^ 63"
    by (simp_all add: SEQDataSet_init_def)
  note th = scan_size_check [OF read_scenario [of "[3, 3]"] header_int_packed(1,2) b
      header_int_packed(3,4,5) stat_scenario [of "[3, 3]"] count_scenario r,
      where mrcReader = mrcReader_none]
  from th have "do_initialize
      [''a.seq'' \<mapsto> pack_header 65261 5 4 4 8 100 16 0 @ replicate 7720 0]
      mrcReader_none (SEQDataSet_init ''a.seq'' [3, 3] 1) =
     Inl (DataSetException ''scan_size doesn't match number of frames'')"
    by (simp add: SEQDataSet_init_def)
  then show ?thesis by (simp add: init_scenario)
qed

lemma init_overflow:
  "do_initialize [''a.seq'' \<mapsto> pack_header 65261 3 4 4 8 100 16 0 @ replicate 392 0]
      mrcReader_none (SEQDataSet_init ''a.seq'' [4294967296, 4294967296] 1) =
   Inr \<lparr>ds_path = ''a.seq'', ds_scan_size = [4294967296, 4294967296],
        ds_header = Some (packed_header 65261 3 4 4 8 100 16 0),
        ds_meta = Some \<lparr>meta_shape = \<lparr>dims = [4294967296, 4294967296, 4, 4], sig_dims = 2\<rparr>,
          raw_dtype = UIntT 8, meta_dtype = UIntT 8,
          metadata = packed_header 65261 3 4 4 8 100 16 0\<rparr>,
        ds_footer_size = Some 0, ds_filesize = Some 1024, ds_image_count = Some 0,
        ds_dark = None, ds_gain = None, ds_image_offset = Some 1024,
        ds_timestamp_micro = Some False, ds_cores = 1\<rparr>"
  by (simp add: do_initialize_packed py_int_truediv_def np_prod_def)

lemma init_broken_sibling:
  "do_initialize
     [''a.seq'' \<mapsto> pack_header 65261 5 4 4 8 100 16 0 @ replicate 7720 0,
      ''a.seq.dark.mrc'' \<mapsto> []]
     mrcReader_none (SEQDataSet_init ''a.seq'' [2, 5] 1) = Inl MrcReaderError"
proof -
  let ?fs = "[''a.seq'' \<mapsto> pack_header 65261 5 4 4 8 100 16 0 @ replicate 7720 0,
      ''a.seq.dark.mrc'' \<mapsto> []]"
  let ?self = "SEQDataSet_init ''a.seq'' [2, 5] 1 :: unit SEQDataSet"
  have p: "ds_path ?self = ''a.seq''" by (simp add: SEQDataSet_init_def)
  have rh: "read_header ?fs (ds_path ?self) HEADER_FIELDS =
      Inr (packed_header 65261 5 4 4 8 100 16 0)"
    unfolding p by (rule read_pack_header [where rest = "replicate 7720 0"]) simp_all
  have st: "os_stat_st_size ?fs (ds_path ?self) = Inr 8352"
    by (simp add: p os_stat_st_size_def)
  show ?thesis
    unfolding do_initialize_eq [OF rh header_int_packed st]
    by (simp add: maybe_load_dark_gain_def maybe_load_mrc_def os_path_exists_def SEQDataSet_init_def
        py_int_truediv_def np_prod_def mrcReader_none_def)
qed

text \<open>
  Claim C3 as stated fails in two ways. With ten frames and \<open>scan_size = (2, 5)\<close> the frame
  count equals the product, but a sibling file \<^verbatim>\<open>a.seq.dark.mrc\<close> that \<^verbatim>\<open>mrcReader\<close> cannot read
  (here an empty file) makes initialization fail. And where the product overflows, the
  check compares with what numpy computes: a file of a header and padding holds no frame,
  \<open>scan_size = (2^32, 2^32)\<close> has the product \<open>2^64\<close>, \<^verbatim>\<open>np.prod\<close> gives \<open>0\<close>, and no error is
  raised.
\<close>

theorem scan_size_check_counterexample:
  "do_initialize
     [''a.seq'' \<mapsto> pack_header 65261 5 4 4 8 100 16 0 @ replicate 7720 0,
      ''a.seq.dark.mrc'' \<mapsto> []]
     mrcReader_none (SEQDataSet_init ''a.seq'' [2, 5] 1) = Inl MrcReaderError \<and>
   map_sum id ds_image_count
     (do_initialize [''a.seq'' \<mapsto> pack_header 65261 5 4 4 8 100 16 0 @ replicate 7720 0]
        mrcReader_none (SEQDataSet_init ''a.seq'' [2, 5] 1)) = Inr (Some 10) \<and>
   prod_list (map sint [2, 5 :: 64 word]) = 10 \<and>
   map_sum id ds_image_count
     (do_initialize [''a.seq'' \<mapsto> pack_header 65261 3 4 4 8 100 16 0 @ replicate 392 0]
        mrcReader_none (SEQDataSet_init ''a.seq'' [4294967296, 4294967296] 1)) =
     Inr (Some 0) \<and>
   prod_list (map sint [4294967296, 4294967296 :: 64 word]) = 18446744073709551616"
  by (simp add: init_overflow init_broken_sibling init_scenario)

section \<open>Validation\<close>

text \<open>
  Claim C8. \<^verbatim>\<open>check_valid\<close> tests the magic number against \<open>0xFEED = 65261\<close>, the
  compression format against \<open>0\<close> and the image format against \<open>100\<close>, in this order; each
  failed test raises a \<^verbatim>\<open>DataSetException\<close> with a message of its own, the three messages
  differ from each other, and a header that passes all three tests is accepted.
\<close>

theorem check_valid_verdict:
  assumes "ds_header self = Some header"
    and "map_of header ''magic'' = Some (PInt magic)"
    and "map_of header ''compression_format'' = Some (PInt compression_format)"
    and "map_of header ''image_format'' = Some (PInt image_format)"
  shows "check_valid self =
     (if magic \<noteq> 65261
      then Inl (DataSetException ''The format of this .seq file is unrecognized'')
      else if compression_format \<noteq> 0
      then Inl (DataSetException ''Only uncompressed images are supported in .seq files'')
      else if image_format \<noteq> 100
      then Inl (DataSetException ''Non-monochrome images are not supported'')
      else Inr ()) \<and>
     distinct [''The format of this .seq file is unrecognized'',
       ''Only uncompressed images are supported in .seq files'',
       ''Non-monochrome images are not supported'']"
  using assms by (simp add: check_valid_def header_get_def)

theorem check_valid_verdict_witness:
  "check_valid (SEQDataSet_init ''a.seq'' [2, 5] 1
      \<lparr>ds_header := Some (packed_header 65261 5 4 4 8 100 16 0)\<rparr> :: unit SEQDataSet) = Inr () \<and>
   check_valid (SEQDataSet_init ''a.seq'' [2, 5] 1
      \<lparr>ds_header := Some (packed_header 0 5 4 4 8 100 16 0)\<rparr> :: unit SEQDataSet) =
     Inl (DataSetException ''The format of this .seq file is unrecognized'') \<and>
   check_valid (SEQDataSet_init ''a.seq'' [2, 5] 1
      \<lparr>ds_header := Some (packed_header 65261 5 4 4 8 100 16 1)\<rparr> :: unit SEQDataSet) =
     Inl (DataSetException ''Only uncompressed images are supported in .seq files'') \<and>
   check_valid (SEQDataSet_init ''a.seq'' [2, 5] 1
      \<lparr>ds_header := Some (packed_header 65261 5 4 4 8 200 16 0)\<rparr> :: unit SEQDataSet) =
     Inl (DataSetException ''Non-monochrome images are not supported'')"
proof -
  have h: "ds_header (SEQDataSet_init ''a.seq'' [2, 5] 1
      \<lparr>ds_header := Some (packed_header m 5 4 4 8 f 16 c)\<rparr> :: unit SEQDataSet) =
      Some (packed_header m 5 4 4 8 f 16 c)" for m f c
    by simp
  have m: "map_of (packed_header m 5 4 4 8 f 16 c) ''magic'' = Some (PInt m)"
    "map_of (packed_header m 5 4 4 8 f 16 c) ''compression_format'' = Some (PInt c)"
    "map_of (packed_header m 5 4 4 8 f 16 c) ''image_format'' = Some (PInt f)" for m f c
    by (simp_all add: packed_header_def)
  show ?thesis
    using check_valid_verdict [OF h m, of 65261 100 0] check_valid_verdict [OF h m, of 0 100 0]
      check_valid_verdict [OF h m, of 65261 100 1] check_valid_verdict [OF h m, of 65261 200 0]
    by simp
qed

section \<open>Correction data\<close>

text \<open>
  Claim C9. When neither \<^verbatim>\<open><path>.dark.mrc\<close> nor \<^verbatim>\<open><path>.gain.mrc\<close> exists, loading the
  correction data raises nothing and leaves both slots \<open>None\<close>: \<^verbatim>\<open>_maybe_load_mrc\<close> returns
  \<open>None\<close> for both, \<^verbatim>\<open>_maybe_load_dark_gain\<close> succeeds, and the \<^verbatim>\<open>CorrectionSet\<close> of the
  dataset, also of any dataset that \<^verbatim>\<open>_do_initialize\<close> returns, has no dark and no gain array.
\<close>

theorem missing_siblings_absent:
  assumes "\<not> os_path_exists fs (ds_path self @ ''.dark.mrc'')"
    and "\<not> os_path_exists fs (ds_path self @ ''.gain.mrc'')"
  shows "maybe_load_mrc fs mrcReader (ds_path self @ ''.dark.mrc'') = Inr None \<and>
     maybe_load_mrc fs mrcReader (ds_path self @ ''.gain.mrc'') = Inr None \<and>
     maybe_load_dark_gain fs mrcReader self = Inr (self\<lparr>ds_dark := None, ds_gain := None\<rparr>) \<and>
     get_correction_data (self\<lparr>ds_dark := None, ds_gain := None\<rparr>) =
       \<lparr>dark = None, gain = None\<rparr> \<and>
     (\<forall>self'. do_initialize fs mrcReader self = Inr self' \<longrightarrow>
        get_correction_data self' = \<lparr>dark = None, gain = None\<rparr>)"
proof (intro conjI allI impI)
  show d: "maybe_load_mrc fs mrcReader (ds_path self @ ''.dark.mrc'') = Inr None"
    and g: "maybe_load_mrc fs mrcReader (ds_path self @ ''.gain.mrc'') = Inr None"
    using assms by (simp_all add: maybe_load_mrc_def)
  then show "maybe_load_dark_gain fs mrcReader self =
      Inr (self\<lparr>ds_dark := None, ds_gain := None\<rparr>)"
    by (simp add: maybe_load_dark_gain_def)
  show "get_correction_data (self\<lparr>ds_dark := None, ds_gain := None\<rparr>) =
       \<lparr>dark = None, gain = None\<rparr>"
    by (simp add: get_correction_data_def)
  fix self' assume "do_initialize fs mrcReader self = Inr self'"
  from do_initialize_Inr [OF this] d g
  show "get_correction_data self' = \<lparr>dark = None, gain = None\<rparr>"
    by (auto simp: get_correction_data_def)
qed

theorem missing_siblings_absent_witness:
  "maybe_load_dark_gain [''a.seq'' \<mapsto> pack_header 65261 5 4 4 8 100 16 0 @ replicate 7720 0]
      mrcReader_none (SEQDataSet_init ''a.seq'' [2, 5] 1) =
     Inr (SEQDataSet_init ''a.seq'' [2, 5] 1) \<and>
   get_correction_data (SEQDataSet_init ''a.seq'' [2, 5] 1 :: unit SEQDataSet) =
     \<lparr>dark = None, gain = None\<rparr> \<and>
   map_sum id get_correction_data
     (do_initialize [''a.seq'' \<mapsto> pack_header 65261 5 4 4 8 100 16 0 @ replicate 7720 0]
        mrcReader_none (SEQDataSet_init ''a.seq'' [2, 5] 1)) =
     Inr \<lparr>dark = None, gain = None\<rparr>"
proof -
  let ?fs = "[''a.seq'' \<mapsto> pack_header 65261 5 4 4 8 100 16 0 @ replicate 7720 0]"
  let ?self = "SEQDataSet_init ''a.seq'' [2, 5] 1 :: unit SEQDataSet"
  have a: "\<not> os_path_exists ?fs (ds_path ?self @ ''.dark.mrc'')"
    "\<not> os_path_exists ?fs (ds_path ?self @ ''.gain.mrc'')"
    by (simp_all add: SEQDataSet_init_def os_path_exists_def)
  have init: "\<exists>self'. do_initialize ?fs mrcReader_none ?self = Inr self'"
    by (simp add: do_initialize_packed py_int_truediv_def np_prod_def)
  then obtain self' where s: "do_initialize ?fs mrcReader_none ?self = Inr self'" ..
  have same: "?self\<lparr>ds_dark := None, ds_gain := None\<rparr> = ?self"
    by (simp add: SEQDataSet_init_def)
  note th = missing_siblings_absent [of ?fs ?self mrcReader_none, OF a]
  from th have 1: "maybe_load_dark_gain ?fs mrcReader_none ?self = Inr ?self"
    unfolding same by (rule conjunct1 [OF conjunct2 [OF conjunct2]])
  from th have 2: "get_correction_data ?self = \<lparr>dark = None, gain = None\<rparr>"
    unfolding same by (rule conjunct1 [OF conjunct2 [OF conjunct2 [OF conjunct2]]])
  from th s have 3: "get_correction_data self' = \<lparr>dark = None, gain = None\<rparr>"
    by blast
  show ?thesis
    unfolding s by (simp only: 1 2 3 map_sum.simps id_apply simp_thms)
qed

section \<open>Decoding text fields\<close>





section \<open>The frame count\<close>

text \<open>
  Claim C2, amended. A dataset that \<^verbatim>\<open>_do_initialize\<close> returns holds the size of the file, the
  image offset of the header's version and the frame count \<^verbatim>\<open>int((filesize - image_offset) /
  true_image_size)\<close>, with \<open>true_image_size\<close> positive. When the file is at least as long as
  the image offset (and shorter than \<open>2^52\<close> bytes, where the float quotient is exact), the
  frame count is the floor of the quotient:
  \<open>image_count * true_image_size + image_offset \<le> filesize <
  image_count * true_image_size + image_offset + true_image_size\<close>.
\<close>

theorem image_count_floor:
  assumes "do_initialize fs mrcReader self = Inr self'"
  shows "\<exists>header t filesize image_offset image_count.
     ds_header self' = Some header \<and>
     header_int header ''true_image_size'' = Inr t \<and> 0 < t \<and>
     os_stat_st_size fs (ds_path self) = Inr filesize \<and> ds_filesize self' = Some filesize \<and>
     get_image_offset header = Inr image_offset \<and> ds_image_offset self' = Some image_offset \<and>
     ds_image_count self' = Some image_count \<and>
     py_int_truediv (filesize - image_offset) t = Inr image_count \<and>
     (image_offset \<le> filesize \<and> filesize < 2 ^ 52 \<longrightarrow>
        image_count = (filesize - image_offset) div t \<and>
        image_count * t + image_offset \<le> filesize \<and>
        filesize < image_count * t + image_offset + t)"
proof -
  from do_initialize_Inr [OF assms] obtain header version bit_depth width height t filesize d g
    where v: "header_int header ''version'' = Inr version"
      and t: "header_int header ''true_image_size'' = Inr t" "0 < t"
      and st: "os_stat_st_size fs (ds_path self) = Inr filesize"
      and n: "py_int_truediv (filesize - (if version \<ge> 5 then 8192 else 1024)) t =
          Inr (np_prod (ds_scan_size self))"
      and s: "self' = self\<lparr>ds_header := Some header,
                  ds_image_offset := Some (if version \<ge> 5 then 8192 else 1024),
                  ds_timestamp_micro := Some (version \<ge> 5),
                  ds_footer_size :=
                    Some (t - width * height * itemsize (UIntT (nat bit_depth))),
                  ds_filesize := Some filesize,
                  ds_image_count := Some (np_prod (ds_scan_size self)),
                  ds_meta := Some \<lparr>meta_shape =
                      \<lparr>dims = map sint (ds_scan_size self) @ [height, width], sig_dims = 2\<rparr>,
                    raw_dtype = UIntT (nat bit_depth), meta_dtype = UIntT (nat bit_depth),
                    metadata = header\<rparr>,
                  ds_dark := d, ds_gain := g\<rparr>"
    by blast
  define off :: int where "off = (if version \<ge> 5 then 8192 else 1024)"
  define n where "n = np_prod (ds_scan_size self)"
  note n' = n [folded off_def n_def]
  have fl: "n = (filesize - off) div t \<and> n * t + off \<le> filesize \<and>
      filesize < n * t + off + t" if "off \<le> filesize"
  proof -
    from that have "0 \<le> filesize - off" by simp
    from py_int_truediv_floor [OF this t(2)] n' have eq: "n = (filesize - off) div t" by simp
    have "(filesize - off) div t * t + (filesize - off) mod t = filesize - off"
      by simp
    moreover have "0 \<le> (filesize - off) mod t" "(filesize - off) mod t < t"
      using t(2) by simp_all
    ultimately show ?thesis unfolding eq by linarith
  qed
  show ?thesis
  proof (intro exI conjI impI)
    show "ds_header self' = Some header" by (simp add: s)
    show "header_int header ''true_image_size'' = Inr t" "0 < t" by fact+
    show "os_stat_st_size fs (ds_path self) = Inr filesize" by fact
    show "ds_filesize self' = Some filesize" by (simp add: s)
    show "get_image_offset header = Inr off"
      unfolding off_def by (rule get_image_offset_eq [OF v])
    show "ds_image_offset self' = Some off" by (simp add: s off_def)
    show "ds_image_count self' = Some n" by (simp add: s n_def)
    show "py_int_truediv (filesize - off) t = Inr n" by (rule n')
    assume "off \<le> filesize \<and> filesize < 2 ^ 52"
    then have "off \<le> filesize" ..
    from fl [OF this]
    show "n = (filesize - off) div t" "n * t + off \<le> filesize" "filesize < n * t + off + t"
      by blast+
  qed
qed

theorem image_count_floor_witness:
  "map_sum id ds_image_count
     (do_initialize [''a.seq'' \<mapsto> pack_header 65261 5 4 4 8 100 16 0 @ replicate 7720 0]
        mrcReader_none (SEQDataSet_init ''a.seq'' [2, 5] 1)) = Inr (Some 10) \<and>
   (10::int) = (8352 - 8192) div 16 \<and> (10::int) * 16 + 8192 \<le> 8352 \<and>
   (8352::int) < 10 * 16 + 8192 + 16"
  using image_count_floor [OF init_scenario] init_scenario by simp

lemma init_short_file:
  "do_initialize [''a.seq'' \<mapsto> pack_header 65261 3 4 4 8 100 100 0 @ replicate 368 0]
      mrcReader_none (SEQDataSet_init ''a.seq'' [0] 1) =
   Inr \<lparr>ds_path = ''a.seq'', ds_scan_size = [0],
        ds_header = Some (packed_header 65261 3 4 4 8 100 100 0),
        ds_meta = Some \<lparr>meta_shape = \<lparr>dims = [0, 4, 4], sig_dims = 2\<rparr>,
          raw_dtype = UIntT 8, meta_dtype = UIntT 8,
          metadata = packed_header 65261 3 4 4 8 100 100 0\<rparr>,
        ds_footer_size = Some 84, ds_filesize = Some 1000, ds_image_count = Some 0,
        ds_dark = None, ds_gain = None, ds_image_offset = Some 1024,
        ds_timestamp_micro = Some False, ds_cores = 1\<rparr>"
  by (simp add: do_initialize_packed py_int_truediv_def np_prod_def)

text \<open>
  Claim C2 as stated fails on a file shorter than its image offset: 1000 bytes with a
  version 3 header (offset 1024) and \<open>true_image_size = 100\<close> give the frame count
  \<open>int(-0.24) = 0\<close>, not the floor \<open>-1\<close>, and \<open>0 * 100 + 1024 \<le> 1000\<close> does not hold.
\<close>

theorem image_count_floor_counterexample:
  "map_sum id ds_filesize
     (do_initialize [''a.seq'' \<mapsto> pack_header 65261 3 4 4 8 100 100 0 @ replicate 368 0]
        mrcReader_none (SEQDataSet_init ''a.seq'' [0] 1)) = Inr (Some 1000) \<and>
   map_sum id ds_image_offset
     (do_initialize [''a.seq'' \<mapsto> pack_header 65261 3 4 4 8 100 100 0 @ replicate 368 0]
        mrcReader_none (SEQDataSet_init ''a.seq'' [0] 1)) = Inr (Some 1024) \<and>
   map_sum id ds_image_count
     (do_initialize [''a.seq'' \<mapsto> pack_header 65261 3 4 4 8 100 100 0 @ replicate 368 0]
        mrcReader_none (SEQDataSet_init ''a.seq'' [0] 1)) = Inr (Some 0) \<and>
   header_int (packed_header 65261 3 4 4 8 100 100 0) ''true_image_size'' = Inr 100 \<and>
   (1000 - 1024) div (100::int) = - 1 \<and>
   \<not> ((0::int) * 100 + 1024 \<le> 1000)"
  by (simp add: init_short_file header_int_packed)

section \<open>The footer size\<close>

text \<open>
  Claim C5, amended. \<^verbatim>\<open>_do_initialize\<close> stores
  \<open>footer_size = true_image_size - width * height * itemsize\<close> and never looks at its sign:
  whenever the header decodes, the bit depth is supported, the frame count equals
  \<^verbatim>\<open>np.prod(scan_size)\<close> and loading the sibling files does not fail, initialization succeeds
  with this footer size, negative or not.
\<close>

theorem footer_size_unchecked:
  assumes "read_header fs (ds_path self) HEADER_FIELDS = Inr header"
    and "header_int header ''version'' = Inr version"
    and "header_int header ''bit_depth'' = Inr bit_depth"
    and "bit_depth \<in> {8, 16, 32, 64}"
    and "header_int header ''width'' = Inr width"
    and "header_int header ''height'' = Inr height"
    and "header_int header ''true_image_size'' = Inr t"
    and "os_stat_st_size fs (ds_path self) = Inr filesize"
    and "py_int_truediv (filesize - (if version \<ge> 5 then 8192 else 1024)) t =
      Inr (np_prod (ds_scan_size self))"
    and "maybe_load_mrc fs mrcReader (ds_path self @ ''.dark.mrc'') = Inr d"
    and "maybe_load_mrc fs mrcReader (ds_path self @ ''.gain.mrc'') = Inr g"
  shows "\<exists>self'. do_initialize fs mrcReader self = Inr self' \<and>
     ds_footer_size self' = Some (t - width * height * (bit_depth div 8))"
proof -
  from assms(4) have "itemsize (UIntT (nat bit_depth)) = bit_depth div 8"
    by auto
  then show ?thesis
    unfolding do_initialize_eq [OF assms(1,2,3,5,6,7,8), of mrcReader]
    using assms(4,9,10,11) by (simp add: maybe_load_dark_gain_def)
qed

theorem footer_size_unchecked_witness:
  "map_sum id ds_footer_size
     (do_initialize [''a.seq'' \<mapsto> pack_header 65261 5 4 4 8 100 16 0 @ replicate 7720 0]
        mrcReader_none (SEQDataSet_init ''a.seq'' [2, 5] 1)) = Inr (Some (16 - 4 * 4 * (8 div 8)))"
proof -
  have b: "(8::int) \<in> {8, 16, 32, 64}" by simp
  have c: "py_int_truediv (8352 - (if (5::int) \<ge> 5 then 8192 else 1024)) 16 =
      Inr (np_prod (ds_scan_size (SEQDataSet_init ''a.seq'' [2, 5] 1 :: unit SEQDataSet)))"
    by (simp add: py_int_truediv_def np_prod_def SEQDataSet_init_def)
  have a: "maybe_load_mrc [''a.seq'' \<mapsto> pack_header 65261 5 4 4 8 100 16 0 @ replicate 7720 0]
       mrcReader_none (ds_path (SEQDataSet_init ''a.seq'' [2, 5] 1 :: unit SEQDataSet) @ sfx) = Inr None"
    if "sfx \<noteq> []" for sfx
    using that by (simp add: maybe_load_mrc_def os_path_exists_def SEQDataSet_init_def)
  from footer_size_unchecked [OF read_scenario [of "[2, 5]"] header_int_packed(1,2) b
      header_int_packed(3,4,5) stat_scenario [of "[2, 5]"] c a a]
  show ?thesis by auto
qed

lemma init_negative_footer:
  "do_initialize [''a.seq'' \<mapsto> pack_header 65261 3 4 4 8 100 8 0 @ replicate 400 0]
      mrcReader_none (SEQDataSet_init ''a.seq'' [1, 1] 1) =
   Inr \<lparr>ds_path = ''a.seq'', ds_scan_size = [1, 1],
        ds_header = Some (packed_header 65261 3 4 4 8 100 8 0),
        ds_meta = Some \<lparr>meta_shape = \<lparr>dims = [1, 1, 4, 4], sig_dims = 2\<rparr>,
          raw_dtype = UIntT 8, meta_dtype = UIntT 8,
          metadata = packed_header 65261 3 4 4 8 100 8 0\<rparr>,
        ds_footer_size = Some (- 8), ds_filesize = Some 1032, ds_image_count = Some 1,
        ds_dark = None, ds_gain = None, ds_image_offset = Some 1024,
        ds_timestamp_micro = Some False, ds_cores = 1\<rparr>"
  by (simp add: do_initialize_packed py_int_truediv_def np_prod_def)

text \<open>
  Claim C5 as stated fails: with \<open>4 \<times> 4\<close> frames of one byte per pixel and
  \<open>true_image_size = 8\<close> the footer size is \<open>-8\<close>, and the dataset initializes.
\<close>

theorem footer_size_unchecked_counterexample:
  "map_sum id ds_footer_size
     (do_initialize [''a.seq'' \<mapsto> pack_header 65261 3 4 4 8 100 8 0 @ replicate 400 0]
        mrcReader_none (SEQDataSet_init ''a.seq'' [1, 1] 1)) = Inr (Some (- 8)) \<and>
   header_int (packed_header 65261 3 4 4 8 100 8 0) ''true_image_size'' = Inr 8 \<and>
   header_int (packed_header 65261 3 4 4 8 100 8 0) ''width'' = Inr 4 \<and>
   header_int (packed_header 65261 3 4 4 8 100 8 0) ''height'' = Inr 4 \<and>
   header_int (packed_header 65261 3 4 4 8 100 8 0) ''bit_depth'' = Inr 8"
  by (simp add: init_negative_footer header_int_packed)

section \<open>Format detection\<close>

text \<open>
  Claim C6 on an empty file: \<^verbatim>\<open>open\<close> and \<^verbatim>\<open>read\<close> succeed, \<^verbatim>\<open>struct.unpack\<close> raises
  \<^verbatim>\<open>struct.error\<close> on the four bytes of the magic number that are not there, and the
  \<^verbatim>\<open>except\<close> clause of \<^verbatim>\<open>detect_params\<close> does not catch it.
\<close>

theorem detect_params_short_file:
  "detect_params [''a.seq'' \<mapsto> []] ''a.seq'' = Inl StructError"
  by (simp add: detect_params_def detect_params_try_def read_header_def unpack_header_def
      HEADER_FIELDS_def unpack_header_field_def)

text \<open>A header with \<open>true_image_size = 0\<close> makes \<^verbatim>\<open>detect_params\<close> raise as well.\<close>

lemma detect_params_zero_size:
  "detect_params [''a.seq'' \<mapsto> pack_header 65261 3 4 4 8 100 0 0 @ replicate 392 0] ''a.seq'' =
     Inl ZeroDivisionError"
  by (simp add: detect_params_def detect_params_try_def read_pack_header header_get_packed
     header_int_packed get_image_offset_def os_stat_st_size_def py_int_truediv_def)

section \<open>The partition plan\<close>






text \<open>Ten frames in three partitions, and in twelve.\<close>

lemma init_scenario_cores:
  "do_initialize [''a.seq'' \<mapsto> pack_header 65261 5 4 4 8 100 16 0 @ replicate 7720 0]
      mrcReader_none (SEQDataSet_init ''a.seq'' [2, 5] cores) = Inr (scenario_dataset cores)"
  by (simp add: do_initialize_packed py_int_truediv_def np_prod_def scenario_dataset_def)


section \<open>The accumulator of the sum\<close>











text \<open>Tiles of unsigned bytes, of doubles and of booleans; a complex tile is refused.\<close>

lemma sum_example_complex:
  "SumFramesTask_call exact_ops example_partition [example_tile (ComplexT 64)] = Inl TypeError"
  by code_simp


section \<open>Further properties of the reader\<close>

text \<open>
  The image offset: the frames start at byte 8192 when the header's version is at least 5,
  and at byte 1024 otherwise; every header that \<^verbatim>\<open>_read_header\<close> returns has a version.
\<close>

theorem image_offset_by_version:
  assumes "read_header fs path HEADER_FIELDS = Inr header"
  shows "\<exists>version. header_int header ''version'' = Inr version \<and>
     get_image_offset header = Inr (if version \<ge> 5 then 8192 else 1024)"
proof -
  from read_header_fields [OF assms] obtain version where
    "header_int header ''version'' = Inr version" by blast
  with get_image_offset_eq [OF this] show ?thesis by blast
qed

theorem image_offset_by_version_witness:
  "get_image_offset (packed_header 65261 5 4 4 8 100 16 0) = Inr 8192 \<and>
   get_image_offset (packed_header 65261 3 4 4 8 100 16 0) = Inr 1024"
proof -
  have r: "read_header [''a.seq'' \<mapsto> pack_header 65261 v 4 4 8 100 16 0] ''a.seq'' HEADER_FIELDS =
      Inr (packed_header 65261 v 4 4 8 100 16 0)" if "0 \<le> v" "v < 2147483648" for v
    using read_pack_header [of "[''a.seq'' \<mapsto> pack_header 65261 v 4 4 8 100 16 0]" "''a.seq''"
        65261 v 4 4 8 100 16 0 "[]"] that
    by simp
  from image_offset_by_version [OF r [of 5]] image_offset_by_version [OF r [of 3]]
  show ?thesis by (simp add: header_int_packed)
qed

text \<open>
  Round trip: a header laid out field by field, little-endian, with values in the range of
  their formats, is unpacked to exactly these values, whatever bytes follow it.
\<close>

theorem header_round_trip:
  assumes "0 \<le> m" "m < 4294967296" "0 \<le> v" "v < 2147483648"
    and "0 \<le> w" "w < 4294967296" "0 \<le> h" "h < 4294967296"
    and "0 \<le> b" "b < 4294967296" "0 \<le> f" "f < 4294967296"
    and "0 \<le> t" "t < 4294967296" "0 \<le> c" "c < 4294967296"
  shows "unpack_header (pack_header m v w h b f t c @ rest) HEADER_FIELDS =
    Inr (packed_header m v w h b f t c)"
  using assms by (rule unpack_pack_header)

theorem header_round_trip_witness:
  "unpack_header (pack_header 65261 5 4 4 8 100 16 0 @ [1, 2, 3]) HEADER_FIELDS =
    Inr (packed_header 65261 5 4 4 8 100 16 0)"
  using header_round_trip [of 65261 5 4 4 8 100 16 0 "[1, 2, 3]"] by simp

text \<open>
  What \<^verbatim>\<open>detect_params\<close> returns where it returns: \<^verbatim>\<open>False\<close> for a path that names no file,
  for a header with an undecodable text field and for a magic number other than \<open>0xFEED\<close>,
  and otherwise, when \<open>true_image_size\<close> is not zero, the path with the frame count as text.
\<close>

theorem detect_params_result:
  "(fs path = None \<longrightarrow> detect_params fs path = Inr DetectFalse) \<and>
   (read_header fs path HEADER_FIELDS = Inl UnicodeDecodeError \<longrightarrow>
      detect_params fs path = Inr DetectFalse) \<and>
   (\<forall>header magic. read_header fs path HEADER_FIELDS = Inr header \<and>
      header_get header ''magic'' = Inr magic \<and> magic \<noteq> PInt 65261 \<longrightarrow>
      detect_params fs path = Inr DetectFalse) \<and>
   (\<forall>header version t filesize image_count.
      read_header fs path HEADER_FIELDS = Inr header \<and>
      header_get header ''magic'' = Inr (PInt 65261) \<and>
      header_int header ''version'' = Inr version \<and>
      header_int header ''true_image_size'' = Inr t \<and>
      os_stat_st_size fs path = Inr filesize \<and>
      py_int_truediv (filesize - (if version \<ge> 5 then 8192 else 1024)) t = Inr image_count \<longrightarrow>
      detect_params fs path = Inr (DetectParameters path (str_int image_count)))"
  by (auto simp: detect_params_def detect_params_try_def read_header_def get_image_offset_eq)

theorem detect_params_result_witness:
  "detect_params Map.empty ''a.seq'' = Inr DetectFalse \<and>
   detect_params [''a.seq'' \<mapsto> replicate 632 0] ''a.seq'' = Inr DetectFalse \<and>
   detect_params [''a.seq'' \<mapsto> pack_header 0 5 4 4 8 100 16 0] ''a.seq'' = Inr DetectFalse \<and>
   detect_params [''a.seq'' \<mapsto> pack_header 65261 5 4 4 8 100 16 0 @ replicate 7720 0] ''a.seq'' =
     Inr (DetectParameters ''a.seq'' ''10'')"
proof -
  have z: "read_header [''a.seq'' \<mapsto> replicate 632 0] ''a.seq'' HEADER_FIELDS =
      Inl UnicodeDecodeError"
  proof -
    have "decode_str (take 24 (drop 4 (replicate 632 (0::byte)))) = Inl UnicodeDecodeError"
    proof -
      have "take 24 (drop 4 (replicate 632 (0::byte))) = 0 # 0 # replicate 22 0"
        by (simp add: numeral_eq_Suc)
      then show ?thesis by (simp add: decode_str_def utf16_decode_def)
    qed
    then have "unpack_header (replicate 632 0) HEADER_FIELDS = Inl UnicodeDecodeError"
      by (intro unpack_header_undecodable [where e = UnicodeDecodeError]) simp_all
    then show ?thesis by (simp add: read_header_def HEADER_SIZE_value)
  qed
  have r0: "read_header [''a.seq'' \<mapsto> pack_header 0 5 4 4 8 100 16 0] ''a.seq'' HEADER_FIELDS =
      Inr (packed_header 0 5 4 4 8 100 16 0)"
    using read_pack_header [of "[''a.seq'' \<mapsto> pack_header 0 5 4 4 8 100 16 0]" "''a.seq''"
        0 5 4 4 8 100 16 0 "[]"] by simp
  have r1: "read_header [''a.seq'' \<mapsto> pack_header 65261 5 4 4 8 100 16 0 @ replicate 7720 0]
      ''a.seq'' HEADER_FIELDS = Inr (packed_header 65261 5 4 4 8 100 16 0)"
    by (rule read_pack_header [where rest = "replicate 7720 0"]) simp_all
  have st: "os_stat_st_size [''a.seq'' \<mapsto> pack_header 65261 5 4 4 8 100 16 0 @ replicate 7720 0]
      ''a.seq'' = Inr 8352"
    by (simp add: os_stat_st_size_def)
  have s10: "str_int 10 = ''10''"
    by code_simp
  note a = detect_params_result [of Map.empty "''a.seq''"]
  note b = detect_params_result [of "[''a.seq'' \<mapsto> replicate 632 0]" "''a.seq''"]
  note c = detect_params_result [of "[''a.seq'' \<mapsto> pack_header 0 5 4 4 8 100 16 0]" "''a.seq''"]
  note d = detect_params_result [of
      "[''a.seq'' \<mapsto> pack_header 65261 5 4 4 8 100 16 0 @ replicate 7720 0]" "''a.seq''"]
  from a have 1: "detect_params Map.empty ''a.seq'' = Inr DetectFalse" by simp
  from b z have 2: "detect_params [''a.seq'' \<mapsto> replicate 632 0] ''a.seq'' = Inr DetectFalse"
    by blast
  from c r0 header_get_packed(1) [of 0 5 4 4 8 100 16 0]
  have 3: "detect_params [''a.seq'' \<mapsto> pack_header 0 5 4 4 8 100 16 0] ''a.seq'' = Inr DetectFalse"
    by (metis pyval.inject(1) zero_neq_numeral)
  from d r1 header_get_packed(1) [of 65261 5 4 4 8 100 16 0]
    header_int_packed(1,5) [of 65261 5 4 4 8 100 16 0] st count_scenario
  have 4: "detect_params [''a.seq'' \<mapsto> pack_header 65261 5 4 4 8 100 16 0 @ replicate 7720 0]
      ''a.seq'' = Inr (DetectParameters ''a.seq'' (str_int 10))"
    by blast
  from 1 2 3 4 s10 show ?thesis by simp
qed

end
